theory Spec2Isabelle
  imports Main "HOL-Library.Word" "HOL-Library.Signed_Division"
begin

section \<open>Values shared by the backends\<close>

text \<open>
  The facade of \<^verbatim>\<open>sad-go-telemetry\<close> is a thin layer over collaborators it does not
  own: the structured logger, the OpenTelemetry tracer, meter and providers, and the
  Application Insights client. A method of the facade is modelled by the list of calls it
  makes on these collaborators, in program order, together with the value it returns.
  What a collaborator answers (the span a tracer starts, whether a span is recording, the
  error a provider's shutdown reports) is an input of the model.

  A Go \<^verbatim>\<open>error\<close> is \<open>error option\<close>: \<open>None\<close> is \<^verbatim>\<open>nil\<close>. A Go \<^verbatim>\<open>float64\<close> is its IEEE-754
  bit pattern: the facade hands such values on and never computes with them. Go's
  \<^verbatim>\<open>int\<close>, \<^verbatim>\<open>int64\<close> and \<^verbatim>\<open>time.Duration\<close> are \<open>int\<close>: the only arithmetic on them is the
  division of a duration by a positive constant, which cannot overflow.
\<close>

datatype error = errorString string

fun Error_msg :: "error \<Rightarrow> string" where
  "Error_msg (errorString s) = s"

datatype panic = nil_pointer_dereference

type_synonym float64 = "64 word"
type_synonym Duration = int
type_synonym Time = int

text \<open>\<^verbatim>\<open>strconv.FormatInt(i, 10)\<close>, also what the verb \<^verbatim>\<open>%d\<close> prints.\<close>

fun FormatUint :: "nat \<Rightarrow> string" where
  "FormatUint n =
     (if n < 10 then [''0123456789'' ! n]
      else FormatUint (n div 10) @ [''0123456789'' ! (n mod 10)])"

declare FormatUint.simps [simp del]

definition FormatInt :: "int \<Rightarrow> string" where
  "FormatInt i = (if i < 0 then CHR ''-'' # FormatUint (nat (- i)) else FormatUint (nat i))"

text \<open>\<^verbatim>\<open>Duration.Milliseconds\<close>: nanoseconds divided by \<open>10\<^sup>6\<close>, truncating towards zero.\<close>

definition Milliseconds :: "Duration \<Rightarrow> int" where
  "Milliseconds d = d sdiv 1000000"

text \<open>The verb \<^verbatim>\<open>%v\<close> applied to an error value that may be \<^verbatim>\<open>nil\<close>.\<close>

definition fmt_v :: "error option \<Rightarrow> string" where
  "fmt_v e = (case e of None \<Rightarrow> ''<nil>'' | Some err \<Rightarrow> Error_msg err)"

subsection \<open>Attributes\<close>

datatype Value = BoolValue bool | Int64Value int | Float64Value float64 | StringValue string

datatype KeyValue = KeyValue (Key: string) (Val: Value)

definition attribute_String :: "string \<Rightarrow> string \<Rightarrow> KeyValue" where
  "attribute_String k v = KeyValue k (StringValue v)"

definition attribute_Int :: "string \<Rightarrow> int \<Rightarrow> KeyValue" where
  "attribute_Int k v = KeyValue k (Int64Value v)"

definition attribute_Int64 :: "string \<Rightarrow> int \<Rightarrow> KeyValue" where
  "attribute_Int64 k v = KeyValue k (Int64Value v)"

definition attribute_Bool :: "string \<Rightarrow> bool \<Rightarrow> KeyValue" where
  "attribute_Bool k v = KeyValue k (BoolValue v)"

text \<open>The keys of \<^verbatim>\<open>semconv\<close> that \<^verbatim>\<open>TrackRequest\<close> uses.\<close>

definition HTTPMethodKey :: string where "HTTPMethodKey = ''http.method''"
definition HTTPURLKey :: string where "HTTPURLKey = ''http.url''"
definition HTTPStatusCodeKey :: string where "HTTPStatusCodeKey = ''http.status_code''"

subsection \<open>Spans and contexts\<close>

text \<open>
  A value of the interface \<^verbatim>\<open>trace.Span\<close> is \<open>Span option\<close>, \<open>None\<close> being \<^verbatim>\<open>nil\<close>. A span
  of the tracing SDK carries an identity and the answer it gives to \<^verbatim>\<open>IsRecording\<close>;
  \<open>NoopSpan\<close> is the span \<^verbatim>\<open>trace.SpanFromContext\<close> returns for a context that holds none;
  \<open>AppInsightsSpan\<close> is the struct \<^verbatim>\<open>appInsightsSpan\<close> (a name and a start time).
  A context is its chain of key-value bindings, the innermost first.
\<close>

datatype Span =
    SdkSpan nat bool
  | NoopSpan
  | AppInsightsSpan string Time

fun IsRecording :: "Span \<Rightarrow> bool" where
  "IsRecording (SdkSpan i r) = r"
| "IsRecording NoopSpan = False"
| "IsRecording (AppInsightsSpan n t) = False"

datatype ctx_key = currentSpanKey | stringKey string

type_synonym Context = "(ctx_key \<times> Span) list"

definition WithValue :: "Context \<Rightarrow> ctx_key \<Rightarrow> Span \<Rightarrow> Context" where
  "WithValue ctx k v = (k, v) # ctx"

definition SpanFromContext :: "Context \<Rightarrow> Span" where
  "SpanFromContext ctx = (case map_of ctx currentSpanKey of Some s \<Rightarrow> s | None \<Rightarrow> NoopSpan)"

subsection \<open>Calls on the collaborators\<close>

datatype codes_Code = codes_Unset | codes_Error | codes_Ok

datatype Level = InfoLevel | WarnLevel | ErrorLevel

datatype Field =
    zap_String string string
  | zap_Bool string bool
  | zap_Error "error option"
  | zap_Any string "KeyValue list"

datatype SeverityLevel = Verbose | Information | Warning | Error | Critical

datatype Instrument = Instrument string

text \<open>A provider, with the error its \<^verbatim>\<open>Shutdown\<close> reports when it is called.\<close>

record Provider =
  Shutdown_answer :: "error option"

text \<open>The telemetry items of the Application Insights client.\<close>

datatype item =
    MetricTelemetry string float64
  | EventTelemetry string "string \<rightharpoonup> string"
  | TraceTelemetry string SeverityLevel "string \<rightharpoonup> string"
  | RequestTelemetry string string Duration string
  | RemoteDependencyTelemetry string string string Duration bool
  | AvailabilityTelemetry string Duration bool

text \<open>
  \<open>Go_Track\<close> is a \<^verbatim>\<open>client.Track\<close> made on a goroutine the method spawns and does not wait
  for; \<open>Track\<close> is one made on the caller's thread. The list of calls of a method keeps
  the order in which the goroutines are spawned, which is not the order in which they run.
\<close>

datatype call =
    Log Level string "Field list"
  | Tracer_Start Context string
  | Span_End Span
  | Span_AddEvent Span string "KeyValue list"
  | Span_SetAttributes Span "KeyValue list"
  | Span_SetStatus Span codes_Code string
  | Span_RecordError Span error "KeyValue list"
  | Meter_Float64Counter string
  | Meter_Float64Gauge string
  | Meter_Float64ObservableGauge string
  | Instrument_Add Instrument Context float64 "KeyValue list"
  | Instrument_Record Instrument Context float64 "KeyValue list"
  | Instrument_Observe Instrument Context float64 "KeyValue list"
  | TracerProvider_Shutdown Context
  | MeterProvider_Shutdown Context
  | SetTracerProvider Provider
  | SetMeterProvider Provider
  | Track item
  | Go_Track item

text \<open>
  A transport submission is a call that hands a telemetry item to a backend's transport:
  ending a span, recording on an instrument, tracking an item. Creating an instrument
  registers it with the meter.
\<close>

fun is_submission :: "call \<Rightarrow> bool" where
  "is_submission (Span_End s) = True"
| "is_submission (Instrument_Add i c v a) = True"
| "is_submission (Instrument_Record i c v a) = True"
| "is_submission (Instrument_Observe i c v a) = True"
| "is_submission (Track i) = True"
| "is_submission (Go_Track i) = True"
| "is_submission c = False"

fun is_instrument_creation :: "call \<Rightarrow> bool" where
  "is_instrument_creation (Meter_Float64Counter n) = True"
| "is_instrument_creation (Meter_Float64Gauge n) = True"
| "is_instrument_creation (Meter_Float64ObservableGauge n) = True"
| "is_instrument_creation c = False"

fun is_log :: "call \<Rightarrow> bool" where
  "is_log (Log l m fs) = True"
| "is_log c = False"

text \<open>The calls that read or change trace state: every call on a tracer or a span.\<close>

fun is_trace_call :: "call \<Rightarrow> bool" where
  "is_trace_call (Tracer_Start c n) = True"
| "is_trace_call (Span_End s) = True"
| "is_trace_call (Span_AddEvent s n a) = True"
| "is_trace_call (Span_SetAttributes s a) = True"
| "is_trace_call (Span_SetStatus s c d) = True"
| "is_trace_call (Span_RecordError s e a) = True"
| "is_trace_call c = False"

definition submissions :: "call list \<Rightarrow> call list" where
  "submissions cs = filter is_submission cs"

section \<open>The streaming backend of \<^verbatim>\<open>open_telemetry.go\<close>\<close>

record Tracer =
  tracer_name :: string
  Start :: "Context \<Rightarrow> string \<Rightarrow> Context \<times> Span"

record Meter =
  meter_name :: string
  Float64Counter :: "string \<Rightarrow> error + Instrument"
  Float64Gauge :: "string \<Rightarrow> error + Instrument"
  Float64ObservableGauge :: "string \<Rightarrow> error + Instrument"

record OpenTelemetry =
  tracer :: Tracer
  meter :: Meter
  traceProvider :: "Provider option"
  meterProvider :: "Provider option"
  traceEnabled :: bool
  metricsEnabled :: bool

definition StartSpan :: "OpenTelemetry \<Rightarrow> Context \<Rightarrow> string \<Rightarrow> (Context \<times> Span option) \<times> call list" where
  "StartSpan ot ctx name =
     (if \<not> traceEnabled ot then ((ctx, None), [])
      else (case Start (tracer ot) ctx name of
              (ctx', span) \<Rightarrow> ((ctx', Some span), [Tracer_Start ctx name])))"

definition EndSpan :: "OpenTelemetry \<Rightarrow> Span option \<Rightarrow> call list" where
  "EndSpan ot span = (case span of None \<Rightarrow> [] | Some s \<Rightarrow> [Span_End s])"

definition AddEvent :: "OpenTelemetry \<Rightarrow> Span option \<Rightarrow> string \<Rightarrow> KeyValue list \<Rightarrow> call list" where
  "AddEvent ot span name attributes =
     (case span of None \<Rightarrow> [] | Some s \<Rightarrow> [Span_AddEvent s name attributes])"

definition RecordMetric :: "OpenTelemetry \<Rightarrow> Context \<Rightarrow> string \<Rightarrow> float64 \<Rightarrow> KeyValue list \<Rightarrow> call list" where
  "RecordMetric ot ctx name v attributes =
     (if \<not> metricsEnabled ot then []
      else (case Float64Counter (meter ot) name of
              Inl err \<Rightarrow>
                [Meter_Float64Counter name,
                 Log ErrorLevel ''Failed to create metric instrument'' [zap_Error (Some err)]]
            | Inr instrument \<Rightarrow>
                [Meter_Float64Counter name, Instrument_Add instrument ctx v attributes]))"

definition RecordError :: "OpenTelemetry \<Rightarrow> Context \<Rightarrow> error option \<Rightarrow> KeyValue list \<Rightarrow> call list" where
  "RecordError ot ctx err attributes =
     (if \<not> traceEnabled ot \<or> err = None then []
      else (case err of
              None \<Rightarrow> []
            | Some e \<Rightarrow>
                (let span = SpanFromContext ctx in
                 if IsRecording span
                 then [Span_RecordError span e attributes,
                       Span_SetStatus span codes_Error (Error_msg e)]
                 else [])))"

definition IncrementCounter :: "OpenTelemetry \<Rightarrow> Context \<Rightarrow> string \<Rightarrow> float64 \<Rightarrow> KeyValue list \<Rightarrow> call list" where
  "IncrementCounter ot ctx name increment attributes = RecordMetric ot ctx name increment attributes"

definition RecordGauge :: "OpenTelemetry \<Rightarrow> Context \<Rightarrow> string \<Rightarrow> float64 \<Rightarrow> KeyValue list \<Rightarrow> call list" where
  "RecordGauge ot ctx name v attributes =
     (if \<not> metricsEnabled ot then []
      else (case Float64Gauge (meter ot) name of
              Inl err \<Rightarrow>
                [Meter_Float64Gauge name,
                 Log ErrorLevel ''Failed to create gauge instrument'' [zap_Error (Some err)]]
            | Inr instrument \<Rightarrow>
                [Meter_Float64Gauge name, Instrument_Record instrument ctx v attributes]))"

definition LogInfo :: "OpenTelemetry \<Rightarrow> Context \<Rightarrow> string \<Rightarrow> KeyValue list \<Rightarrow> call list" where
  "LogInfo ot ctx message attributes = [Log InfoLevel message [zap_Any ''attributes'' attributes]]"

definition LogWarning :: "OpenTelemetry \<Rightarrow> Context \<Rightarrow> string \<Rightarrow> KeyValue list \<Rightarrow> call list" where
  "LogWarning ot ctx message attributes = [Log WarnLevel message [zap_Any ''attributes'' attributes]]"

definition LogError :: "OpenTelemetry \<Rightarrow> Context \<Rightarrow> string \<Rightarrow> error option \<Rightarrow> KeyValue list \<Rightarrow> call list" where
  "LogError ot ctx message err attributes =
     Log ErrorLevel message [zap_Error err, zap_Any ''attributes'' attributes]
       # RecordError ot ctx err attributes"

definition httpStatusToSpanStatus :: "int \<Rightarrow> codes_Code \<times> string" where
  "httpStatusToSpanStatus statusCode =
     (if statusCode \<ge> 400 then (codes_Error, ''HTTP '' @ FormatInt statusCode)
      else (codes_Ok, ''''))"

text \<open>
  \<^verbatim>\<open>TrackRequest\<close> calls methods on the span \<^verbatim>\<open>StartSpan\<close> returned; on a \<^verbatim>\<open>nil\<close> span that
  is a nil-pointer dereference, after which the deferred \<^verbatim>\<open>EndSpan\<close> still runs.
\<close>

definition TrackRequest ::
  "OpenTelemetry \<Rightarrow> Context \<Rightarrow> string \<Rightarrow> string \<Rightarrow> Duration \<Rightarrow> int \<Rightarrow> call list \<times> panic option" where
  "TrackRequest ot ctx method url duration statusCode =
     (if \<not> traceEnabled ot then ([], None)
      else (case StartSpan ot ctx ''HTTP Request'' of
              ((ctx', None), cs) \<Rightarrow> (cs @ EndSpan ot None, Some nil_pointer_dereference)
            | ((ctx', Some span), cs) \<Rightarrow>
                (cs @
                 [Span_SetAttributes span
                    [attribute_String HTTPMethodKey method,
                     attribute_String HTTPURLKey url,
                     attribute_Int HTTPStatusCodeKey statusCode],
                  Span_SetStatus span (fst (httpStatusToSpanStatus statusCode))
                    (snd (httpStatusToSpanStatus statusCode)),
                  Span_SetAttributes span
                    [attribute_Int64 ''http.duration_ms'' (Milliseconds duration)]]
                 @ EndSpan ot (Some span), None)))"

definition Errorf_trace_metric :: "error option \<Rightarrow> error \<Rightarrow> error" where
  "Errorf_trace_metric err mErr =
     errorString (''trace: '' @ fmt_v err @ '', metric: '' @ Error_msg mErr)"

definition Shutdown :: "OpenTelemetry \<Rightarrow> Context \<Rightarrow> error option \<times> call list" where
  "Shutdown ot ctx =
     (let (err, cs1) =
            (case traceProvider ot of
               None \<Rightarrow> (None, [])
             | Some tp \<Rightarrow> (Shutdown_answer tp, [TracerProvider_Shutdown ctx]))
      in (case meterProvider ot of
            None \<Rightarrow> (err, cs1)
          | Some mp \<Rightarrow>
              (case Shutdown_answer mp of
                 None \<Rightarrow> (err, cs1 @ [MeterProvider_Shutdown ctx])
               | Some mErr \<Rightarrow>
                   (Some (Errorf_trace_metric err mErr), cs1 @ [MeterProvider_Shutdown ctx]))))"

text \<open>What the shutdown of a provider pointer reports when it is called, \<^verbatim>\<open>nil\<close> for no provider.\<close>

definition failure :: "Provider option \<Rightarrow> error option" where
  "failure p = (case p of None \<Rightarrow> None | Some q \<Rightarrow> Shutdown_answer q)"

section \<open>What lies outside the repository\<close>

text \<open>
  The answers of the Go runtime and of the libraries the facade calls: the clock, the
  process environment and host name, the string form and the \<^verbatim>\<open>float64\<close> reading of an
  attribute value, \<^verbatim>\<open>strings.ToLower\<close> (which also folds letters outside ASCII) and
  \<^verbatim>\<open>strconv.Quote\<close> (the double-quoted, escaped form of a string).
\<close>

record Runtime =
  Now :: Time
  Since :: "Time \<Rightarrow> Duration"
  Emit :: "Value \<Rightarrow> string"
  AsFloat64 :: "Value \<Rightarrow> float64"
  ToLower :: "string \<Rightarrow> string"
  Quote :: "string \<Rightarrow> string"
  Environ :: "string \<rightharpoonup> string"
  Hostname :: "error + string"

text \<open>\<^verbatim>\<open>os.Getenv\<close>: the empty string for a variable that is not set.\<close>

definition Getenv :: "Runtime \<Rightarrow> string \<Rightarrow> string" where
  "Getenv rt k = (case Environ rt k of None \<Rightarrow> [] | Some v \<Rightarrow> v)"

text \<open>
  \<^verbatim>\<open>strconv.ParseBool\<close>: the value is \<^verbatim>\<open>false\<close> when the string is not a boolean, and the
  error then quotes the string.
\<close>

definition ParseBool :: "Runtime \<Rightarrow> string \<Rightarrow> bool \<times> error option" where
  "ParseBool rt str =
     (if str \<in> set [''1'', ''t'', ''T'', ''TRUE'', ''true'', ''True''] then (True, None)
      else if str \<in> set [''0'', ''f'', ''F'', ''FALSE'', ''false'', ''False''] then (False, None)
      else (False,
            Some (errorString
                    (''strconv.ParseBool: parsing '' @ Quote rt str @ '': invalid syntax''))))"

text \<open>The constructors of the OpenTelemetry SDK and the global tracer and meter lookups.\<close>

datatype Resource = Resource string
datatype Exporter = Exporter string

record Sdk =
  resource_New :: "string \<Rightarrow> error + Resource"
  otlptracegrpc_New :: "string \<Rightarrow> error + Exporter"
  otlpmetricgrpc_New :: "string \<Rightarrow> error + Exporter"
  NewTracerProvider :: "Exporter \<Rightarrow> Resource \<Rightarrow> Provider"
  NewMeterProvider :: "Exporter \<Rightarrow> Resource \<Rightarrow> Provider"
  otel_Tracer :: "string \<Rightarrow> Tracer"
  otel_Meter :: "string \<Rightarrow> Meter"

definition Errorf_w :: "string \<Rightarrow> error \<Rightarrow> error" where
  "Errorf_w prefix err = errorString (prefix @ Error_msg err)"

definition NewOpenTelemetry ::
  "Sdk \<Rightarrow> string \<Rightarrow> string \<Rightarrow> string \<Rightarrow> bool \<Rightarrow> bool \<Rightarrow> (error + OpenTelemetry) \<times> call list" where
  "NewOpenTelemetry sdk serviceName traceEndpoint metricEndpoint traceEnabled' metricsEnabled' =
     (let cs0 = [Log InfoLevel ''OpenTelemetry Configuration ''
                   [zap_String ''serviceName'' serviceName,
                    zap_String ''traceEndpoint'' traceEndpoint,
                    zap_String ''metricEndpoint'' metricEndpoint,
                    zap_Bool ''traceEnabled'' traceEnabled',
                    zap_Bool ''metricsEnabled'' metricsEnabled']]
      in case resource_New sdk serviceName of
           Inl err \<Rightarrow> (Inl (Errorf_w ''failed to create resource: '' err), cs0)
         | Inr res \<Rightarrow>
             (case (if traceEnabled'
                    then (case otlptracegrpc_New sdk traceEndpoint of
                            Inl err \<Rightarrow> Inl err
                          | Inr traceExporter \<Rightarrow> Inr (Some (NewTracerProvider sdk traceExporter res)))
                    else Inr None) of
                Inl err \<Rightarrow>
                  (Inl (Errorf_w ''failed to create metric exporter: '' err),
                   cs0 @ [Log ErrorLevel ''Failed to create OpenTelemetry exporter''
                            [zap_Error (Some err),
                             zap_String ''endpoint'' metricEndpoint,
                             zap_Bool ''metricsEnabled'' metricsEnabled']])
              | Inr tp \<Rightarrow>
                  (let cs1 = cs0 @ (case tp of None \<Rightarrow> [] | Some p \<Rightarrow> [SetTracerProvider p])
                   in case (if metricsEnabled'
                            then (case otlpmetricgrpc_New sdk metricEndpoint of
                                    Inl err \<Rightarrow> Inl err
                                  | Inr metricExporter \<Rightarrow>
                                      Inr (Some (NewMeterProvider sdk metricExporter res)))
                            else Inr None) of
                        Inl err \<Rightarrow> (Inl (Errorf_w ''failed to create metric exporter: '' err), cs1)
                      | Inr mp \<Rightarrow>
                          (Inr \<lparr>tracer = otel_Tracer sdk serviceName,
                                meter = otel_Meter sdk serviceName,
                                traceProvider = tp,
                                meterProvider = mp,
                                traceEnabled = traceEnabled',
                                metricsEnabled = metricsEnabled'\<rparr>,
                           cs1 @ (case mp of None \<Rightarrow> [] | Some p \<Rightarrow> [SetMeterProvider p])))))"

section \<open>The streaming backend of \<^verbatim>\<open>opentelemetry.go\<close>\<close>

text \<open>
  The second implementation of \<^verbatim>\<open>OpenTelemetry\<close> has the same fields. Its methods read the
  package variables \<^verbatim>\<open>traceEnabled\<close> and \<^verbatim>\<open>metricsEnabled\<close>, not the fields of the struct.
  Its constructor declares the providers it builds with \<^verbatim>\<open>:=\<close> inside the branches, so the
  variables the struct is filled from stay \<^verbatim>\<open>nil\<close>.
\<close>

record package_vars =
  var_traceEnabled :: bool
  var_metricsEnabled :: bool

definition newOpenTelemetry ::
  "Sdk \<Rightarrow> string \<Rightarrow> string \<Rightarrow> string \<Rightarrow> bool \<Rightarrow> bool \<Rightarrow> (error + OpenTelemetry) \<times> call list" where
  "newOpenTelemetry sdk serviceName traceEndpoint metricEndpoint traceEnabled' metricsEnabled' =
     (case resource_New sdk serviceName of
        Inl err \<Rightarrow> (Inl err, [])
      | Inr res \<Rightarrow>
          (case (if traceEnabled'
                 then (case otlptracegrpc_New sdk traceEndpoint of
                         Inl err \<Rightarrow> Inl err
                       | Inr traceExporter \<Rightarrow> Inr [SetTracerProvider (NewTracerProvider sdk traceExporter res)])
                 else Inr []) of
             Inl err \<Rightarrow> (Inl err, [])
           | Inr cs1 \<Rightarrow>
               (case (if metricsEnabled'
                      then (case otlpmetricgrpc_New sdk metricEndpoint of
                              Inl err \<Rightarrow> Inl err
                            | Inr metricExporter \<Rightarrow>
                                Inr [SetMeterProvider (NewMeterProvider sdk metricExporter res)])
                      else Inr []) of
                  Inl err \<Rightarrow> (Inl err, cs1)
                | Inr cs2 \<Rightarrow>
                    (Inr \<lparr>tracer = otel_Tracer sdk serviceName,
                          meter = otel_Meter sdk serviceName,
                          traceProvider = None,
                          meterProvider = None,
                          traceEnabled = traceEnabled',
                          metricsEnabled = metricsEnabled'\<rparr>,
                     cs1 @ cs2))))"

definition StartSpan_legacy ::
  "package_vars \<Rightarrow> OpenTelemetry \<Rightarrow> Context \<Rightarrow> string \<Rightarrow> (Context \<times> Span option) \<times> call list" where
  "StartSpan_legacy pv ot ctx name =
     (if \<not> var_traceEnabled pv
      then ((ctx, None),
            [Log InfoLevel ''Failed to start span, trace not enabled for this service'' []])
      else (case Start (tracer ot) ctx name of
              (ctx', span) \<Rightarrow> ((ctx', Some span), [Tracer_Start ctx name])))"

definition EndSpan_legacy :: "OpenTelemetry \<Rightarrow> Span option \<Rightarrow> call list" where
  "EndSpan_legacy ot span = (case span of None \<Rightarrow> [] | Some s \<Rightarrow> [Span_End s])"

definition AddEvent_legacy :: "OpenTelemetry \<Rightarrow> Span option \<Rightarrow> string \<Rightarrow> KeyValue list \<Rightarrow> call list" where
  "AddEvent_legacy ot span name attributes =
     (case span of None \<Rightarrow> [] | Some s \<Rightarrow> [Span_AddEvent s name attributes])"

definition RecordMetric_legacy ::
  "package_vars \<Rightarrow> OpenTelemetry \<Rightarrow> Context \<Rightarrow> string \<Rightarrow> float64 \<Rightarrow> KeyValue list \<Rightarrow> call list" where
  "RecordMetric_legacy pv ot ctx name v attributes =
     (if \<not> var_metricsEnabled pv
      then [Log InfoLevel
              ''Failed to create metric instrument, metrics not enabled for this service'' []]
      else (case Float64Counter (meter ot) name of
              Inl err \<Rightarrow>
                [Meter_Float64Counter name,
                 Log ErrorLevel ''Failed to create metric instrument'' [zap_Error (Some err)]]
            | Inr instrument \<Rightarrow>
                [Meter_Float64Counter name, Instrument_Add instrument ctx v attributes]))"

definition IncrementCounter_legacy ::
  "package_vars \<Rightarrow> OpenTelemetry \<Rightarrow> Context \<Rightarrow> string \<Rightarrow> float64 \<Rightarrow> KeyValue list \<Rightarrow> call list" where
  "IncrementCounter_legacy pv ot ctx name increment attributes =
     RecordMetric_legacy pv ot ctx name increment attributes"

definition RecordGauge_legacy ::
  "package_vars \<Rightarrow> OpenTelemetry \<Rightarrow> Context \<Rightarrow> string \<Rightarrow> float64 \<Rightarrow> KeyValue list \<Rightarrow> call list" where
  "RecordGauge_legacy pv ot ctx name v attributes =
     (case Float64ObservableGauge (meter ot) name of
        Inl err \<Rightarrow>
          [Meter_Float64ObservableGauge name,
           Log ErrorLevel ''Failed to create gauge instrument'' [zap_Error (Some err)]]
      | Inr instrument \<Rightarrow>
          [Meter_Float64ObservableGauge name, Instrument_Observe instrument ctx v attributes])"

definition LogInfo_legacy :: "OpenTelemetry \<Rightarrow> Context \<Rightarrow> string \<Rightarrow> KeyValue list \<Rightarrow> call list" where
  "LogInfo_legacy ot ctx message attributes =
     [Log InfoLevel message [zap_Any ''attributes'' attributes]]"

definition LogWarning_legacy :: "OpenTelemetry \<Rightarrow> Context \<Rightarrow> string \<Rightarrow> KeyValue list \<Rightarrow> call list" where
  "LogWarning_legacy ot ctx message attributes =
     [Log WarnLevel message [zap_Any ''attributes'' attributes]]"

definition LogError_legacy ::
  "OpenTelemetry \<Rightarrow> Context \<Rightarrow> string \<Rightarrow> error option \<Rightarrow> KeyValue list \<Rightarrow> call list" where
  "LogError_legacy ot ctx message err attributes =
     [Log ErrorLevel message [zap_Error err, zap_Any ''attributes'' attributes]]"

text \<open>The \<^verbatim>\<open>float64\<close> constant \<^verbatim>\<open>1\<close>.\<close>

definition float64_one :: float64 where
  "float64_one = 0x3FF0000000000000"

definition TrackRequest_legacy ::
  "package_vars \<Rightarrow> OpenTelemetry \<Rightarrow> Context \<Rightarrow> string \<Rightarrow> string \<Rightarrow> Duration \<Rightarrow> string \<Rightarrow> call list" where
  "TrackRequest_legacy pv ot ctx method url duration responseCode =
     RecordMetric_legacy pv ot ctx ''http.requests'' float64_one
       [attribute_String ''http.method'' method,
        attribute_String ''http.url'' url,
        attribute_Int64 ''http.duration_ms'' (Milliseconds duration),
        attribute_String ''http.status_code'' responseCode]"

text \<open>
  \<^verbatim>\<open>Shutdown\<close> of \<^verbatim>\<open>opentelemetry.go\<close> calls \<^verbatim>\<open>Shutdown\<close> on both provider pointers without
  testing them. The SDK's method reads the fields of its receiver, so a \<^verbatim>\<open>nil\<close> provider
  is a nil-pointer dereference. The method returns no value: it logs each failure.
\<close>

definition Shutdown_legacy :: "OpenTelemetry \<Rightarrow> Context \<Rightarrow> call list \<times> panic option" where
  "Shutdown_legacy ot ctx =
     (case traceProvider ot of
        None \<Rightarrow> ([], Some nil_pointer_dereference)
      | Some tp \<Rightarrow>
          (let cs1 = TracerProvider_Shutdown ctx #
                     (case Shutdown_answer tp of
                        None \<Rightarrow> []
                      | Some err \<Rightarrow>
                          [Log ErrorLevel ''Error shutting down trace provider''
                             [zap_Error (Some err)]])
           in case meterProvider ot of
                None \<Rightarrow> (cs1, Some nil_pointer_dereference)
              | Some mp \<Rightarrow>
                  (cs1 @ MeterProvider_Shutdown ctx #
                     (case Shutdown_answer mp of
                        None \<Rightarrow> []
                      | Some err \<Rightarrow>
                          [Log ErrorLevel ''Error shutting down meter provider''
                             [zap_Error (Some err)]]),
                   None)))"

section \<open>The flat backend: \<^verbatim>\<open>AppInsightsTelemetry\<close>\<close>

datatype TelemetryClient = TelemetryClient string

record AppInsightsTelemetry =
  ai_client :: TelemetryClient
  ai_hostname :: string
  ai_serviceName :: string
  ai_traceEnabled :: bool
  ai_telemetryEnabled :: bool

definition APPINSIGHTS_INSTRUMENTATIONKEY_DEFAULT :: string where
  "APPINSIGHTS_INSTRUMENTATIONKEY_DEFAULT = ''6b57af63-7a39-4834-9d3d-405ddb07a51a''"

definition newAppInsightsTelemetry :: "Runtime \<Rightarrow> (error + AppInsightsTelemetry) \<times> call list" where
  "newAppInsightsTelemetry rt =
     (let iKey0 = Getenv rt ''APPINSIGHTS_INSTRUMENTATIONKEY'';
          (iKey, cs1) =
            (if iKey0 = []
             then (APPINSIGHTS_INSTRUMENTATIONKEY_DEFAULT,
                   [Log InfoLevel
                      ''APPINSIGHTS_INSTRUMENTATIONKEY is not set, using default instrumentation key''
                      []])
             else (iKey0, []));
          (hostname, cs2) =
            (case Hostname rt of
               Inl err \<Rightarrow> (''unkw'', [Log WarnLevel ''Error retrieving hostname'' [zap_Error (Some err)]])
             | Inr h \<Rightarrow> (h, []));
          serviceName0 = Getenv rt ''SERVICE_NAME'';
          (serviceName, cs3) =
            (if serviceName0 = []
             then (''Melina'', [Log InfoLevel ''SERVICE_NAME is not set, using Melina as default'' []])
             else (serviceName0, []))
      in (Inr \<lparr>ai_client = TelemetryClient iKey,
                ai_hostname = hostname,
                ai_serviceName = serviceName,
                ai_traceEnabled = fst (ParseBool rt (Getenv rt ''APPINSIGHTS_TRACE_ENABLED'')),
                ai_telemetryEnabled = fst (ParseBool rt (Getenv rt ''APPINSIGHTS_ENABLED''))\<rparr>,
          cs1 @ cs2 @ cs3))"

definition PostMetrics :: "AppInsightsTelemetry \<Rightarrow> string \<Rightarrow> float64 \<Rightarrow> call list" where
  "PostMetrics ai name v =
     (if ai_telemetryEnabled ai then [Go_Track (MetricTelemetry name v)] else [])"

text \<open>The new event starts with no property; the loop copies every entry of \<open>properties\<close>.\<close>

definition PostEvent :: "AppInsightsTelemetry \<Rightarrow> string \<Rightarrow> (string \<rightharpoonup> string) \<Rightarrow> call list" where
  "PostEvent ai name properties =
     (if ai_telemetryEnabled ai then [Go_Track (EventTelemetry name (Map.empty ++ properties))]
      else [])"

definition PostTrace ::
  "AppInsightsTelemetry \<Rightarrow> string \<Rightarrow> SeverityLevel \<Rightarrow> (string \<rightharpoonup> string) \<Rightarrow> call list" where
  "PostTrace ai message severity properties =
     (if ai_traceEnabled ai \<and> ai_telemetryEnabled ai
      then [Go_Track (TraceTelemetry (ai_serviceName ai @ ''_'' @ ai_hostname ai @ ''_'' @ message)
                        severity (Map.empty ++ properties))]
      else [])"

definition AppInsights_StartSpan ::
  "Runtime \<Rightarrow> AppInsightsTelemetry \<Rightarrow> Context \<Rightarrow> string \<Rightarrow> (Context \<times> Span option) \<times> call list" where
  "AppInsights_StartSpan rt ai ctx name =
     (let span = AppInsightsSpan name (Now rt)
      in ((WithValue ctx (stringKey ''appinsights_span'') span, Some span), []))"

text \<open>The type assertion fails for a \<^verbatim>\<open>nil\<close> interface value and for any other span.\<close>

definition AppInsights_EndSpan :: "Runtime \<Rightarrow> AppInsightsTelemetry \<Rightarrow> Span option \<Rightarrow> call list" where
  "AppInsights_EndSpan rt ai span =
     (case span of
        Some (AppInsightsSpan name startTime) \<Rightarrow>
          (let duration = Since rt startTime
           in PostEvent ai name [''duration_ms'' \<mapsto> FormatInt (Milliseconds duration)])
      | _ \<Rightarrow> [])"

text \<open>The loop that turns an attribute list into a property map; a later key overwrites.\<close>

definition properties_of :: "Runtime \<Rightarrow> KeyValue list \<Rightarrow> (string \<rightharpoonup> string)" where
  "properties_of rt attributes =
     foldl (\<lambda>properties attr. properties(Key attr \<mapsto> Emit rt (Val attr))) Map.empty attributes"

definition AppInsights_AddEvent ::
  "Runtime \<Rightarrow> AppInsightsTelemetry \<Rightarrow> Span option \<Rightarrow> string \<Rightarrow> KeyValue list \<Rightarrow> call list" where
  "AppInsights_AddEvent rt ai span name attributes = PostEvent ai name (properties_of rt attributes)"

definition AppInsights_RecordMetric ::
  "Runtime \<Rightarrow> AppInsightsTelemetry \<Rightarrow> Context \<Rightarrow> string \<Rightarrow> float64 \<Rightarrow> KeyValue list \<Rightarrow> call list" where
  "AppInsights_RecordMetric rt ai ctx name v attributes =
     PostMetrics ai name v @
     concat (map (\<lambda>attr. PostMetrics ai (name @ ''.'' @ Key attr) (AsFloat64 rt (Val attr))) attributes)"

definition AppInsights_IncrementCounter ::
  "Runtime \<Rightarrow> AppInsightsTelemetry \<Rightarrow> Context \<Rightarrow> string \<Rightarrow> float64 \<Rightarrow> KeyValue list \<Rightarrow> call list" where
  "AppInsights_IncrementCounter rt ai ctx name increment attributes =
     AppInsights_RecordMetric rt ai ctx name increment attributes"

definition AppInsights_RecordGauge ::
  "Runtime \<Rightarrow> AppInsightsTelemetry \<Rightarrow> Context \<Rightarrow> string \<Rightarrow> float64 \<Rightarrow> KeyValue list \<Rightarrow> call list" where
  "AppInsights_RecordGauge rt ai ctx name v attributes =
     AppInsights_RecordMetric rt ai ctx name v attributes"

definition AppInsights_LogInfo ::
  "Runtime \<Rightarrow> AppInsightsTelemetry \<Rightarrow> Context \<Rightarrow> string \<Rightarrow> KeyValue list \<Rightarrow> call list" where
  "AppInsights_LogInfo rt ai ctx message attributes =
     PostTrace ai message Information (properties_of rt attributes)"

definition AppInsights_LogWarning ::
  "Runtime \<Rightarrow> AppInsightsTelemetry \<Rightarrow> Context \<Rightarrow> string \<Rightarrow> KeyValue list \<Rightarrow> call list" where
  "AppInsights_LogWarning rt ai ctx message attributes =
     PostTrace ai message Warning (properties_of rt attributes)"

text \<open>\<^verbatim>\<open>err.Error()\<close> on a \<^verbatim>\<open>nil\<close> error is a nil-pointer dereference.\<close>

definition AppInsights_LogError ::
  "Runtime \<Rightarrow> AppInsightsTelemetry \<Rightarrow> Context \<Rightarrow> string \<Rightarrow> error option \<Rightarrow> KeyValue list
     \<Rightarrow> call list \<times> panic option" where
  "AppInsights_LogError rt ai ctx message err attributes =
     (case err of
        None \<Rightarrow> ([], Some nil_pointer_dereference)
      | Some e \<Rightarrow>
          (PostTrace ai message Error ((properties_of rt attributes)(''error'' \<mapsto> Error_msg e)),
           None))"

definition AppInsights_TrackRequest ::
  "AppInsightsTelemetry \<Rightarrow> Context \<Rightarrow> string \<Rightarrow> string \<Rightarrow> Duration \<Rightarrow> string \<Rightarrow> call list" where
  "AppInsights_TrackRequest ai ctx method url duration responseCode =
     (if ai_telemetryEnabled ai then [Track (RequestTelemetry method url duration responseCode)]
      else [])"

section \<open>Backend selection and construction\<close>

datatype Telemetry = Streaming OpenTelemetry | FlatEvent AppInsightsTelemetry

text \<open>\<^verbatim>\<open>TelemetryType\<close> is a string type with two named constants.\<close>

type_synonym TelemetryType = string

definition TelemetryTypeOpenTelemetry :: TelemetryType where
  "TelemetryTypeOpenTelemetry = ''opentelemetry''"

definition TelemetryTypeAppInsights :: TelemetryType where
  "TelemetryTypeAppInsights = ''appinsights''"

definition getTelemetryType :: "Runtime \<Rightarrow> TelemetryType" where
  "getTelemetryType rt =
     (let telemetryType = Getenv rt ''TELEMETRY_TYPE''
      in if telemetryType = [] then TelemetryTypeOpenTelemetry
         else (let l = ToLower rt telemetryType
               in if l = ''opentelemetry'' \<or> l = ''otel'' then TelemetryTypeOpenTelemetry
                  else if l = ''appinsights'' \<or> l = ''applicationinsights''
                       then TelemetryTypeAppInsights
                       else TelemetryTypeOpenTelemetry))"

definition unknown_telemetry_type :: "string \<Rightarrow> error" where
  "unknown_telemetry_type t = errorString (''unknown telemetry type: '' @ t)"

definition as_Telemetry ::
  "('a \<Rightarrow> Telemetry) \<Rightarrow> (error + 'a) \<times> call list \<Rightarrow> (error + Telemetry) \<times> call list" where
  "as_Telemetry wrap r = (case r of (Inl err, cs) \<Rightarrow> (Inl err, cs) | (Inr t, cs) \<Rightarrow> (Inr (wrap t), cs))"

text \<open>\<^verbatim>\<open>NewTelemetry\<close> of \<^verbatim>\<open>Interface.go\<close>: the selector is compared as it was read.\<close>

definition NewTelemetry :: "Sdk \<Rightarrow> Runtime \<Rightarrow> (error + Telemetry) \<times> call list" where
  "NewTelemetry sdk rt =
     (let telemetryType = Getenv rt ''TELEMETRY_TYPE'';
          serviceName0 = Getenv rt ''SERVICE_NAME'';
          serviceName = (if serviceName0 = [] then ''unknown-service'' else serviceName0)
      in if telemetryType = ''opentelemetry'' \<or> telemetryType = ''otel'' \<or> telemetryType = []
         then (let traceEnabled' = (Getenv rt ''OTEL_TRACE_ENABLED'' = ''true'');
                   metricsEnabled' = (Getenv rt ''OTEL_METRICS_ENABLED'' = ''true'');
                   traceEndpoint = Getenv rt ''OTEL_EXPORTER_OTLP_TRACES_ENDPOINT'';
                   metricEndpoint = Getenv rt ''OTEL_EXPORTER_OTLP_METRICS_ENDPOINT''
               in as_Telemetry Streaming
                    (NewOpenTelemetry sdk serviceName traceEndpoint metricEndpoint
                       traceEnabled' metricsEnabled'))
         else (Inl (unknown_telemetry_type telemetryType), []))"

text \<open>\<^verbatim>\<open>NewTelemetry\<close> of the file that holds \<^verbatim>\<open>AppInsightsTelemetry\<close>: the selector goes
  through \<^verbatim>\<open>getTelemetryType\<close> first.\<close>

definition NewTelemetry_legacy :: "Sdk \<Rightarrow> Runtime \<Rightarrow> (error + Telemetry) \<times> call list" where
  "NewTelemetry_legacy sdk rt =
     (let telemetryType = getTelemetryType rt
      in if telemetryType = TelemetryTypeOpenTelemetry
         then (let traceEnabled' = (Getenv rt ''OTEL_TRACE_ENABLED'' = ''true'');
                   metricsEnabled' = (Getenv rt ''OTEL_METRICS_ENABLED'' = ''true'');
                   serviceName0 = Getenv rt ''SERVICE_NAME'';
                   serviceName = (if serviceName0 = [] then ''unknown-service'' else serviceName0);
                   traceEndpoint = Getenv rt ''OTEL_EXPORTER_OTLP_TRACES_ENDPOINT'';
                   metricEndpoint = Getenv rt ''OTEL_EXPORTER_OTLP_METRICS_ENDPOINT''
               in as_Telemetry Streaming
                    (newOpenTelemetry sdk serviceName traceEndpoint metricEndpoint
                       traceEnabled' metricsEnabled'))
         else if telemetryType = TelemetryTypeAppInsights
         then as_Telemetry FlatEvent (newAppInsightsTelemetry rt)
         else (Inl (unknown_telemetry_type telemetryType), []))"

section \<open>Concrete collaborators\<close>

text \<open>
  A tracer whose spans record, a meter that creates every instrument, an SDK whose
  constructors succeed and a runtime over a given environment: the inputs at which the
  theorems below are instantiated.
\<close>

definition example_tracer :: Tracer where
  "example_tracer =
     \<lparr>tracer_name = ''svc'',
      Start = (\<lambda>ctx name. (WithValue ctx currentSpanKey (SdkSpan 1 True), SdkSpan 1 True))\<rparr>"

definition example_meter :: Meter where
  "example_meter =
     \<lparr>meter_name = ''svc'',
      Float64Counter = (\<lambda>name. Inr (Instrument name)),
      Float64Gauge = (\<lambda>name. Inr (Instrument name)),
      Float64ObservableGauge = (\<lambda>name. Inr (Instrument name))\<rparr>"

definition example_otel :: "Provider option \<Rightarrow> Provider option \<Rightarrow> bool \<Rightarrow> bool \<Rightarrow> OpenTelemetry" where
  "example_otel tp mp te me =
     \<lparr>tracer = example_tracer, meter = example_meter,
      traceProvider = tp, meterProvider = mp,
      traceEnabled = te, metricsEnabled = me\<rparr>"

definition example_sdk :: Sdk where
  "example_sdk =
     \<lparr>resource_New = (\<lambda>name. Inr (Resource name)),
      otlptracegrpc_New = (\<lambda>endpoint. Inr (Exporter endpoint)),
      otlpmetricgrpc_New = (\<lambda>endpoint. Inr (Exporter endpoint)),
      NewTracerProvider = (\<lambda>e r. \<lparr>Shutdown_answer = None\<rparr>),
      NewMeterProvider = (\<lambda>e r. \<lparr>Shutdown_answer = None\<rparr>),
      otel_Tracer = (\<lambda>name. example_tracer\<lparr>tracer_name := name\<rparr>),
      otel_Meter = (\<lambda>name. example_meter\<lparr>meter_name := name\<rparr>)\<rparr>"

definition ascii_lower :: "char \<Rightarrow> char" where
  "ascii_lower c =
     (case map_of (zip ''ABCDEFGHIJKLMNOPQRSTUVWXYZ'' ''abcdefghijklmnopqrstuvwxyz'') c of
        None \<Rightarrow> c
      | Some l \<Rightarrow> l)"

definition example_runtime :: "(string \<rightharpoonup> string) \<Rightarrow> Runtime" where
  "example_runtime env =
     \<lparr>Now = 1000,
      Since = (\<lambda>t. 150000000),
      Emit = (\<lambda>v. case v of
                     BoolValue b \<Rightarrow> (if b then ''true'' else ''false'')
                   | Int64Value i \<Rightarrow> FormatInt i
                   | Float64Value f \<Rightarrow> ''float''
                   | StringValue s \<Rightarrow> s),
      AsFloat64 = (\<lambda>v. case v of Float64Value f \<Rightarrow> f | _ \<Rightarrow> 0),
      ToLower = map ascii_lower,
      Quote = (\<lambda>s. CHR 0x22 # s @ [CHR 0x22]),
      Environ = env,
      Hostname = Inr ''host''\<rparr>"

definition example_appinsights :: "bool \<Rightarrow> bool \<Rightarrow> AppInsightsTelemetry" where
  "example_appinsights te en =
     \<lparr>ai_client = TelemetryClient ''key'', ai_hostname = ''host'', ai_serviceName = ''svc'',
      ai_traceEnabled = te, ai_telemetryEnabled = en\<rparr>"

section \<open>Disabled tracing and the span handle\<close>

lemma StartSpan_disabled:
  "\<not> traceEnabled ot \<Longrightarrow> StartSpan ot ctx name = ((ctx, None), [])"
  by (simp add: StartSpan_def)

lemma StartSpan_legacy_disabled:
  "\<not> var_traceEnabled pv \<Longrightarrow>
     fst (StartSpan_legacy pv ot ctx name) = (ctx, None) \<and>
     submissions (snd (StartSpan_legacy pv ot ctx name)) = [] \<and>
     filter is_trace_call (snd (StartSpan_legacy pv ot ctx name)) = []"
  by (simp add: StartSpan_legacy_def submissions_def)

lemma nil_handle_streaming:
  "EndSpan ot None = [] \<and> AddEvent ot None ev attributes = [] \<and>
   EndSpan_legacy ot None = [] \<and> AddEvent_legacy ot None ev attributes = []"
  by (simp add: EndSpan_def AddEvent_def EndSpan_legacy_def AddEvent_legacy_def)

lemma AppInsights_StartSpan_result:
  "AppInsights_StartSpan rt ai ctx name =
     (((stringKey ''appinsights_span'', AppInsightsSpan name (Now rt)) # ctx,
       Some (AppInsightsSpan name (Now rt))), [])"
  by (simp add: AppInsights_StartSpan_def WithValue_def Let_def)

lemma PostEvent_calls:
  "PostEvent ai name properties =
     (if ai_telemetryEnabled ai then [Go_Track (EventTelemetry name properties)] else [])"
  by (simp add: PostEvent_def)

lemma PostTrace_calls:
  "PostTrace ai message severity properties =
     (if ai_traceEnabled ai \<and> ai_telemetryEnabled ai
      then [Go_Track (TraceTelemetry (ai_serviceName ai @ ''_'' @ ai_hostname ai @ ''_'' @ message)
                        severity properties)]
      else [])"
  by (simp add: PostTrace_def)

text \<open>
  C1, as the code has it. On the streaming backend (both implementations), when tracing
  is disabled \<^verbatim>\<open>StartSpan\<close> returns the context it was given and a \<^verbatim>\<open>nil\<close> span, submits
  nothing and touches no trace state, and \<^verbatim>\<open>EndSpan\<close> and \<^verbatim>\<open>AddEvent\<close> on that \<^verbatim>\<open>nil\<close> span
  make no call at all. On the flat backend \<^verbatim>\<open>StartSpan\<close> does not read the trace flag: it
  always returns a synthetic span and a context extended with it; \<^verbatim>\<open>EndSpan\<close> on a \<^verbatim>\<open>nil\<close>
  span makes no call; \<^verbatim>\<open>AddEvent\<close> ignores the span and submits one event exactly when
  telemetry is enabled.
\<close>

theorem C1_disabled_tracing_nil_span:
  assumes "\<not> traceEnabled ot" and "\<not> var_traceEnabled pv"
  shows "StartSpan ot ctx name = ((ctx, None), []) \<and>
         EndSpan ot (snd (fst (StartSpan ot ctx name))) = [] \<and>
         AddEvent ot (snd (fst (StartSpan ot ctx name))) ev attributes = [] \<and>
         fst (StartSpan_legacy pv ot ctx name) = (ctx, None) \<and>
         submissions (snd (StartSpan_legacy pv ot ctx name)) = [] \<and>
         filter is_trace_call (snd (StartSpan_legacy pv ot ctx name)) = [] \<and>
         EndSpan_legacy ot (snd (fst (StartSpan_legacy pv ot ctx name))) = [] \<and>
         AddEvent_legacy ot (snd (fst (StartSpan_legacy pv ot ctx name))) ev attributes = [] \<and>
         AppInsights_StartSpan rt ai ctx name =
           (((stringKey ''appinsights_span'', AppInsightsSpan name (Now rt)) # ctx,
             Some (AppInsightsSpan name (Now rt))), []) \<and>
         AppInsights_EndSpan rt ai None = [] \<and>
         AppInsights_AddEvent rt ai None ev attributes =
           (if ai_telemetryEnabled ai
            then [Go_Track (EventTelemetry ev (properties_of rt attributes))] else [])"
proof -
  have new: "StartSpan ot ctx name = ((ctx, None), [])"
    using assms(1) by (rule StartSpan_disabled)
  have old: "fst (StartSpan_legacy pv ot ctx name) = (ctx, None)"
    "submissions (snd (StartSpan_legacy pv ot ctx name)) = []"
    "filter is_trace_call (snd (StartSpan_legacy pv ot ctx name)) = []"
    using StartSpan_legacy_disabled [OF assms(2)] by simp_all
  have flat_end: "AppInsights_EndSpan rt ai None = []"
    by (simp add: AppInsights_EndSpan_def)
  have flat_add: "AppInsights_AddEvent rt ai None ev attributes =
      (if ai_telemetryEnabled ai
       then [Go_Track (EventTelemetry ev (properties_of rt attributes))] else [])"
    by (simp add: AppInsights_AddEvent_def PostEvent_calls)
  show ?thesis
    using new old flat_end flat_add nil_handle_streaming [of ot ev attributes]
      AppInsights_StartSpan_result [of rt ai ctx name]
    by simp
qed

theorem C1_disabled_tracing_nil_span_witness:
  "\<not> traceEnabled (example_otel None None False False) \<and>
   \<not> var_traceEnabled \<lparr>var_traceEnabled = False, var_metricsEnabled = False\<rparr> \<and>
   StartSpan (example_otel None None False False) [] ''op'' = (([], None), []) \<and>
   fst (StartSpan_legacy \<lparr>var_traceEnabled = False, var_metricsEnabled = False\<rparr>
          (example_otel None None False False) [] ''op'') = ([], None) \<and>
   AppInsights_AddEvent (example_runtime Map.empty) (example_appinsights False False) None ''ev'' [] = []"
  using C1_disabled_tracing_nil_span
    [of "example_otel None None False False"
        "\<lparr>var_traceEnabled = False, var_metricsEnabled = False\<rparr>"
        "[]" "''op''" "''ev''" "[]" "example_runtime Map.empty" "example_appinsights False False"]
  by (simp add: example_otel_def example_appinsights_def)

text \<open>
  C1 as stated fails on the flat backend: with the trace flag off, \<^verbatim>\<open>StartSpan\<close> returns a
  span that is not \<^verbatim>\<open>nil\<close> and a context that is not the one it was given, and \<^verbatim>\<open>AddEvent\<close> on
  a \<^verbatim>\<open>nil\<close> span submits an event.
\<close>

theorem C1_flat_backend_counterexample:
  "\<not> ai_traceEnabled (example_appinsights False True) \<and>
   AppInsights_StartSpan (example_runtime Map.empty) (example_appinsights False True) [] ''op'' =
     (([(stringKey ''appinsights_span'', AppInsightsSpan ''op'' 1000)],
       Some (AppInsightsSpan ''op'' 1000)), []) \<and>
   fst (AppInsights_StartSpan (example_runtime Map.empty) (example_appinsights False True) [] ''op'')
     \<noteq> ([], None) \<and>
   submissions (AppInsights_AddEvent (example_runtime Map.empty) (example_appinsights False True)
                  None ''ev'' []) =
     [Go_Track (EventTelemetry ''ev'' Map.empty)]"
  by (simp add: AppInsights_StartSpan_def WithValue_def example_runtime_def example_appinsights_def
      AppInsights_AddEvent_def PostEvent_def properties_of_def submissions_def Let_def)

section \<open>Closing a span\<close>

lemma AppInsights_EndSpan_handle:
  "AppInsights_EndSpan rt ai (Some (AppInsightsSpan name startTime)) =
     (if ai_telemetryEnabled ai
      then [Go_Track (EventTelemetry name
                        [''duration_ms'' \<mapsto> FormatInt (Milliseconds (Since rt startTime))])]
      else [])"
  by (simp add: AppInsights_EndSpan_def PostEvent_calls Let_def)

lemma AppInsights_EndSpan_submissions:
  "length (submissions (AppInsights_EndSpan rt ai (Some (AppInsightsSpan name startTime)))) =
     (if ai_telemetryEnabled ai then 1 else 0)"
  by (simp add: AppInsights_EndSpan_handle submissions_def)

text \<open>
  C2, as the code has it. Closing a \<^verbatim>\<open>nil\<close> span makes no call on either backend. On the
  streaming backend every \<^verbatim>\<open>EndSpan\<close> on a span makes exactly one \<^verbatim>\<open>End\<close> call on it; what a
  second \<^verbatim>\<open>End\<close> does is left to the tracing SDK. The span of the flat backend has no closed
  state: every \<^verbatim>\<open>EndSpan\<close> on the handle \<^verbatim>\<open>StartSpan\<close> returned submits one event when
  telemetry is enabled and none otherwise, so closing it twice submits two events. No
  \<^verbatim>\<open>EndSpan\<close> faults.
\<close>

theorem C2_end_span_twice:
  "EndSpan ot None = [] \<and> EndSpan_legacy ot None = [] \<and> AppInsights_EndSpan rt ai None = [] \<and>
   EndSpan ot (Some s) = [Span_End s] \<and> EndSpan_legacy ot (Some s) = [Span_End s] \<and>
   length (submissions
     (AppInsights_EndSpan rt1 ai (snd (fst (AppInsights_StartSpan rt ai ctx name))) @
      AppInsights_EndSpan rt2 ai (snd (fst (AppInsights_StartSpan rt ai ctx name))))) =
     (if ai_telemetryEnabled ai then 2 else 0)"
  by (simp add: EndSpan_def EndSpan_legacy_def AppInsights_StartSpan_result
      AppInsights_EndSpan_handle submissions_def)
    (simp add: AppInsights_EndSpan_def)

theorem C2_end_span_twice_witness:
  "EndSpan (example_otel None None True True) (Some (SdkSpan 1 True)) = [Span_End (SdkSpan 1 True)] \<and>
   AppInsights_EndSpan (example_runtime Map.empty) (example_appinsights True False) None = [] \<and>
   length (submissions
     (AppInsights_EndSpan (example_runtime Map.empty) (example_appinsights True False)
        (snd (fst (AppInsights_StartSpan (example_runtime Map.empty)
                     (example_appinsights True False) [] ''op''))) @
      AppInsights_EndSpan (example_runtime Map.empty) (example_appinsights True False)
        (snd (fst (AppInsights_StartSpan (example_runtime Map.empty)
                     (example_appinsights True False) [] ''op''))))) = 0"
  using C2_end_span_twice [of "example_otel None None True True" "example_runtime Map.empty"
      "example_appinsights True False" "SdkSpan 1 True" "example_runtime Map.empty"
      "[]" "''op''" "example_runtime Map.empty"]
  by (simp add: example_appinsights_def)

text \<open>
  C2 as stated fails on the flat backend: closing the handle of one \<^verbatim>\<open>StartSpan\<close> twice
  submits two telemetry items.
\<close>

theorem C2_double_close_counterexample:
  "submissions
     (AppInsights_EndSpan (example_runtime Map.empty) (example_appinsights True True)
        (snd (fst (AppInsights_StartSpan (example_runtime Map.empty)
                     (example_appinsights True True) [] ''op''))) @
      AppInsights_EndSpan (example_runtime Map.empty) (example_appinsights True True)
        (snd (fst (AppInsights_StartSpan (example_runtime Map.empty)
                     (example_appinsights True True) [] ''op'')))) =
     [Go_Track (EventTelemetry ''op'' [''duration_ms'' \<mapsto> ''150'']),
      Go_Track (EventTelemetry ''op'' [''duration_ms'' \<mapsto> ''150''])]"
  by (simp add: AppInsights_StartSpan_result AppInsights_EndSpan_handle submissions_def
      example_runtime_def example_appinsights_def Milliseconds_def signed_divide_int_def
      FormatInt_def FormatUint.simps)

section \<open>Logging\<close>

text \<open>
  C3, as the code has it. On the streaming backend (both implementations) \<^verbatim>\<open>LogInfo\<close>,
  \<^verbatim>\<open>LogWarning\<close> and \<^verbatim>\<open>LogError\<close> each make exactly one call on the logger, at the matching
  level and with the message, whatever the trace and metrics flags are. On the flat
  backend they never call the logger: each submits one trace item, whose message is the
  service name, the host name and the message joined by underscores, exactly when the
  trace flag and the telemetry flag are both set (\<^verbatim>\<open>LogError\<close>: for an error that is not
  \<^verbatim>\<open>nil\<close>).
\<close>

theorem C3_log_delivery:
  "LogInfo ot ctx message attributes = [Log InfoLevel message [zap_Any ''attributes'' attributes]] \<and>
   LogWarning ot ctx message attributes = [Log WarnLevel message [zap_Any ''attributes'' attributes]] \<and>
   filter is_log (LogError ot ctx message err attributes) =
     [Log ErrorLevel message [zap_Error err, zap_Any ''attributes'' attributes]] \<and>
   LogInfo_legacy ot ctx message attributes = [Log InfoLevel message [zap_Any ''attributes'' attributes]] \<and>
   LogWarning_legacy ot ctx message attributes = [Log WarnLevel message [zap_Any ''attributes'' attributes]] \<and>
   LogError_legacy ot ctx message err attributes =
     [Log ErrorLevel message [zap_Error err, zap_Any ''attributes'' attributes]] \<and>
   AppInsights_LogInfo rt ai ctx message attributes =
     (if ai_traceEnabled ai \<and> ai_telemetryEnabled ai
      then [Go_Track (TraceTelemetry (ai_serviceName ai @ ''_'' @ ai_hostname ai @ ''_'' @ message)
                        Information (properties_of rt attributes))]
      else []) \<and>
   AppInsights_LogWarning rt ai ctx message attributes =
     (if ai_traceEnabled ai \<and> ai_telemetryEnabled ai
      then [Go_Track (TraceTelemetry (ai_serviceName ai @ ''_'' @ ai_hostname ai @ ''_'' @ message)
                        Warning (properties_of rt attributes))]
      else []) \<and>
   AppInsights_LogError rt ai ctx message (Some e) attributes =
     (if ai_traceEnabled ai \<and> ai_telemetryEnabled ai
      then [Go_Track (TraceTelemetry (ai_serviceName ai @ ''_'' @ ai_hostname ai @ ''_'' @ message)
                        Error ((properties_of rt attributes)(''error'' \<mapsto> Error_msg e)))]
      else [], None) \<and>
   filter is_log (AppInsights_LogInfo rt ai ctx message attributes) = [] \<and>
   filter is_log (AppInsights_LogWarning rt ai ctx message attributes) = [] \<and>
   filter is_log (fst (AppInsights_LogError rt ai ctx message (Some e) attributes)) = []"
proof -
  have rec: "filter is_log (RecordError ot ctx err attributes) = []"
    by (cases err) (simp_all add: RecordError_def Let_def)
  have streaming: "filter is_log (LogError ot ctx message err attributes) =
      [Log ErrorLevel message [zap_Error err, zap_Any ''attributes'' attributes]]"
    by (simp add: LogError_def rec)
  show ?thesis
    using streaming
    by (simp add: LogInfo_def LogWarning_def LogInfo_legacy_def LogWarning_legacy_def
        LogError_legacy_def AppInsights_LogInfo_def AppInsights_LogWarning_def
        AppInsights_LogError_def PostTrace_calls)
qed

theorem C3_log_delivery_witness:
  "LogInfo (example_otel None None False False) [] ''done'' [] =
     [Log InfoLevel ''done'' [zap_Any ''attributes'' []]] \<and>
   filter is_log (LogError (example_otel None None False False) [] ''failed''
                    (Some (errorString ''boom'')) []) =
     [Log ErrorLevel ''failed'' [zap_Error (Some (errorString ''boom'')), zap_Any ''attributes'' []]] \<and>
   AppInsights_LogInfo (example_runtime Map.empty) (example_appinsights True True) [] ''done'' [] =
     [Go_Track (TraceTelemetry ''svc_host_done'' Information Map.empty)]"
  using C3_log_delivery [of "example_otel None None False False" "[]" "''done''" "[]"
      "Some (errorString ''boom'')" "example_runtime Map.empty" "example_appinsights True True"
      "errorString ''boom''"]
    C3_log_delivery [of "example_otel None None False False" "[]" "''failed''" "[]"
      "Some (errorString ''boom'')" "example_runtime Map.empty" "example_appinsights True True"
      "errorString ''boom''"]
  by (simp add: example_appinsights_def properties_of_def)

text \<open>
  C3 as stated fails on the flat backend: \<^verbatim>\<open>LogInfo\<close> makes no call on the logger, and with
  the flags off the message goes nowhere.
\<close>

theorem C3_flat_backend_counterexample:
  "AppInsights_LogInfo (example_runtime Map.empty) (example_appinsights False False) []
     ''Operation completed'' [] = [] \<and>
   filter is_log (AppInsights_LogInfo (example_runtime Map.empty) (example_appinsights True True) []
     ''Operation completed'' []) = []"
  by (simp add: AppInsights_LogInfo_def PostTrace_def example_appinsights_def)

section \<open>Tracking a request\<close>

lemma httpStatusToSpanStatus_ok:
  "statusCode < 400 \<Longrightarrow> httpStatusToSpanStatus statusCode = (codes_Ok, [])"
  by (simp add: httpStatusToSpanStatus_def)

lemma httpStatusToSpanStatus_error:
  "400 \<le> statusCode \<Longrightarrow>
     httpStatusToSpanStatus statusCode = (codes_Error, ''HTTP '' @ FormatInt statusCode)"
  by (simp add: httpStatusToSpanStatus_def)

lemma TrackRequest_enabled:
  assumes "traceEnabled ot"
  shows "TrackRequest ot ctx method url duration statusCode =
    ([Tracer_Start ctx ''HTTP Request'',
      Span_SetAttributes (snd (Start (tracer ot) ctx ''HTTP Request''))
        [KeyValue ''http.method'' (StringValue method),
         KeyValue ''http.url'' (StringValue url),
         KeyValue ''http.status_code'' (Int64Value statusCode)],
      Span_SetStatus (snd (Start (tracer ot) ctx ''HTTP Request''))
        (fst (httpStatusToSpanStatus statusCode)) (snd (httpStatusToSpanStatus statusCode)),
      Span_SetAttributes (snd (Start (tracer ot) ctx ''HTTP Request''))
        [KeyValue ''http.duration_ms'' (Int64Value (Milliseconds duration))],
      Span_End (snd (Start (tracer ot) ctx ''HTTP Request''))], None)"
  using assms
  by (simp add: TrackRequest_def StartSpan_def EndSpan_def attribute_String_def attribute_Int_def
      attribute_Int64_def HTTPMethodKey_def HTTPURLKey_def HTTPStatusCodeKey_def
      split: prod.splits)

lemma TrackRequest_legacy_calls:
  "TrackRequest_legacy pv ot ctx method url duration responseCode =
     (if \<not> var_metricsEnabled pv
      then [Log InfoLevel
              ''Failed to create metric instrument, metrics not enabled for this service'' []]
      else Meter_Float64Counter ''http.requests'' #
           (case Float64Counter (meter ot) ''http.requests'' of
              Inl err \<Rightarrow>
                [Log ErrorLevel ''Failed to create metric instrument'' [zap_Error (Some err)]]
            | Inr instrument \<Rightarrow>
                [Instrument_Add instrument ctx float64_one
                   [KeyValue ''http.method'' (StringValue method),
                    KeyValue ''http.url'' (StringValue url),
                    KeyValue ''http.duration_ms'' (Int64Value (Milliseconds duration)),
                    KeyValue ''http.status_code'' (StringValue responseCode)]]))"
  by (simp add: TrackRequest_legacy_def RecordMetric_legacy_def attribute_String_def
      attribute_Int64_def split: sum.splits)

text \<open>
  C4, as the code has it. \<^verbatim>\<open>TrackRequest\<close> of \<^verbatim>\<open>open_telemetry.go\<close> is gated by the trace
  flag. With tracing enabled one call starts exactly one span named \<^verbatim>\<open>HTTP Request\<close>, sets
  the method, url and status-code attributes, sets the status (OK with an empty
  description below 400; the error status with the description \<^verbatim>\<open>HTTP <code>\<close> from 400
  on), sets the duration in milliseconds and ends the span exactly once, without a
  fault; with tracing disabled it makes no call. \<^verbatim>\<open>TrackRequest\<close> of \<^verbatim>\<open>opentelemetry.go\<close>
  never starts or touches a span and does not read the trace flag: it is gated by the
  package variable \<^verbatim>\<open>metricsEnabled\<close>. With metrics enabled it asks the meter for the counter
  \<^verbatim>\<open>http.requests\<close> and, when the meter creates it, adds 1 to it once with the method, url,
  duration and status-code attributes (when the meter fails it logs the error and adds
  nothing); with metrics disabled it writes one log line and submits nothing. On the flat
  backend one call tracks exactly one request item when telemetry is enabled and nothing
  otherwise.
\<close>

theorem C4_track_request:
  "(traceEnabled ot \<longrightarrow>
      TrackRequest ot ctx method url duration statusCode =
        ([Tracer_Start ctx ''HTTP Request'',
          Span_SetAttributes (snd (Start (tracer ot) ctx ''HTTP Request''))
            [KeyValue ''http.method'' (StringValue method),
             KeyValue ''http.url'' (StringValue url),
             KeyValue ''http.status_code'' (Int64Value statusCode)],
          Span_SetStatus (snd (Start (tracer ot) ctx ''HTTP Request''))
            (if statusCode < 400 then codes_Ok else codes_Error)
            (if statusCode < 400 then [] else ''HTTP '' @ FormatInt statusCode),
          Span_SetAttributes (snd (Start (tracer ot) ctx ''HTTP Request''))
            [KeyValue ''http.duration_ms'' (Int64Value (Milliseconds duration))],
          Span_End (snd (Start (tracer ot) ctx ''HTTP Request''))], None) \<and>
      submissions (fst (TrackRequest ot ctx method url duration statusCode)) =
        [Span_End (snd (Start (tracer ot) ctx ''HTTP Request''))]) \<and>
   (\<not> traceEnabled ot \<longrightarrow> TrackRequest ot ctx method url duration statusCode = ([], None)) \<and>
   filter is_trace_call (TrackRequest_legacy pv ot ctx method url duration responseCode) = [] \<and>
   (var_metricsEnabled pv \<longrightarrow>
      TrackRequest_legacy pv ot ctx method url duration responseCode =
        Meter_Float64Counter ''http.requests'' #
        (case Float64Counter (meter ot) ''http.requests'' of
           Inl err \<Rightarrow>
             [Log ErrorLevel ''Failed to create metric instrument'' [zap_Error (Some err)]]
         | Inr instrument \<Rightarrow>
             [Instrument_Add instrument ctx float64_one
                [KeyValue ''http.method'' (StringValue method),
                 KeyValue ''http.url'' (StringValue url),
                 KeyValue ''http.duration_ms'' (Int64Value (Milliseconds duration)),
                 KeyValue ''http.status_code'' (StringValue responseCode)]]) \<and>
      length (submissions (TrackRequest_legacy pv ot ctx method url duration responseCode)) =
        (case Float64Counter (meter ot) ''http.requests'' of Inl err \<Rightarrow> 0 | Inr instrument \<Rightarrow> 1)) \<and>
   (\<not> var_metricsEnabled pv \<longrightarrow>
      TrackRequest_legacy pv ot ctx method url duration responseCode =
        [Log InfoLevel
           ''Failed to create metric instrument, metrics not enabled for this service'' []] \<and>
      submissions (TrackRequest_legacy pv ot ctx method url duration responseCode) = []) \<and>
   AppInsights_TrackRequest ai ctx method url duration responseCode =
     (if ai_telemetryEnabled ai then [Track (RequestTelemetry method url duration responseCode)]
      else [])"
proof -
  have status: "fst (httpStatusToSpanStatus statusCode) = (if statusCode < 400 then codes_Ok else codes_Error)"
    "snd (httpStatusToSpanStatus statusCode) = (if statusCode < 400 then [] else ''HTTP '' @ FormatInt statusCode)"
    by (simp_all add: httpStatusToSpanStatus_def)
  have off: "\<not> traceEnabled ot \<Longrightarrow> TrackRequest ot ctx method url duration statusCode = ([], None)"
    by (simp add: TrackRequest_def)
  have flat: "AppInsights_TrackRequest ai ctx method url duration responseCode =
     (if ai_telemetryEnabled ai then [Track (RequestTelemetry method url duration responseCode)]
      else [])"
    by (simp add: AppInsights_TrackRequest_def)
  have no_span: "filter is_trace_call
      (TrackRequest_legacy pv ot ctx method url duration responseCode) = []"
    by (simp add: TrackRequest_legacy_calls split: sum.splits)
  have count: "var_metricsEnabled pv \<Longrightarrow>
      length (submissions (TrackRequest_legacy pv ot ctx method url duration responseCode)) =
        (case Float64Counter (meter ot) ''http.requests'' of Inl err \<Rightarrow> 0 | Inr instrument \<Rightarrow> 1)"
    by (simp add: TrackRequest_legacy_calls submissions_def split: sum.splits)
  have none: "\<not> var_metricsEnabled pv \<Longrightarrow>
      submissions (TrackRequest_legacy pv ot ctx method url duration responseCode) = []"
    by (simp add: TrackRequest_legacy_calls submissions_def)
  have streaming: "traceEnabled ot \<Longrightarrow>
      submissions (fst (TrackRequest ot ctx method url duration statusCode)) =
        [Span_End (snd (Start (tracer ot) ctx ''HTTP Request''))]"
    by (simp add: TrackRequest_enabled submissions_def)
  show ?thesis
    using off flat no_span count none streaming
    by (simp add: TrackRequest_enabled status TrackRequest_legacy_calls)
qed

theorem C4_track_request_witness:
  "traceEnabled (example_otel None None True False) \<and>
   TrackRequest (example_otel None None True False) [] ''GET'' ''/x'' 150000000 404 =
     ([Tracer_Start [] ''HTTP Request'',
       Span_SetAttributes (SdkSpan 1 True)
         [KeyValue ''http.method'' (StringValue ''GET''),
          KeyValue ''http.url'' (StringValue ''/x''),
          KeyValue ''http.status_code'' (Int64Value 404)],
       Span_SetStatus (SdkSpan 1 True) codes_Error ''HTTP 404'',
       Span_SetAttributes (SdkSpan 1 True) [KeyValue ''http.duration_ms'' (Int64Value 150)],
       Span_End (SdkSpan 1 True)], None) \<and>
   \<not> traceEnabled (example_otel None None False False) \<and>
   TrackRequest (example_otel None None False False) [] ''GET'' ''/x'' 150000000 404 = ([], None) \<and>
   var_metricsEnabled \<lparr>var_traceEnabled = False, var_metricsEnabled = True\<rparr> \<and>
   TrackRequest_legacy \<lparr>var_traceEnabled = False, var_metricsEnabled = True\<rparr>
       (example_otel None None True False) [] ''GET'' ''/x'' 150000000 ''404'' =
     [Meter_Float64Counter ''http.requests'',
      Instrument_Add (Instrument ''http.requests'') [] float64_one
        [KeyValue ''http.method'' (StringValue ''GET''),
         KeyValue ''http.url'' (StringValue ''/x''),
         KeyValue ''http.duration_ms'' (Int64Value 150),
         KeyValue ''http.status_code'' (StringValue ''404'')]] \<and>
   \<not> var_metricsEnabled \<lparr>var_traceEnabled = True, var_metricsEnabled = False\<rparr> \<and>
   submissions
     (TrackRequest_legacy \<lparr>var_traceEnabled = True, var_metricsEnabled = False\<rparr>
        (example_otel None None False False) [] ''GET'' ''/x'' 150000000 ''404'') = []"
proof -
  have on: "traceEnabled (example_otel None None True False)"
    and off: "\<not> traceEnabled (example_otel None None False False)"
    and sp: "snd (Start (tracer (example_otel None None True False)) [] ''HTTP Request'') = SdkSpan 1 True"
    and mt: "Float64Counter (meter (example_otel None None True False)) ''http.requests'' =
               Inr (Instrument ''http.requests'')"
    by (simp_all add: example_otel_def example_tracer_def example_meter_def)
  have ms: "Milliseconds 150000000 = 150" "FormatInt 404 = ''404''"
    by (simp_all add: Milliseconds_def signed_divide_int_def FormatInt_def FormatUint.simps)
  note a = C4_track_request [of "example_otel None None True False" "[]" "''GET''" "''/x''"
      150000000 404 "\<lparr>var_traceEnabled = False, var_metricsEnabled = True\<rparr>" "''404''"
      "example_appinsights True True"]
  note b = C4_track_request [of "example_otel None None False False" "[]" "''GET''" "''/x''"
      150000000 404 "\<lparr>var_traceEnabled = True, var_metricsEnabled = False\<rparr>" "''404''"
      "example_appinsights True True"]
  have t1: "TrackRequest (example_otel None None True False) [] ''GET'' ''/x'' 150000000 404 =
     ([Tracer_Start [] ''HTTP Request'',
       Span_SetAttributes (SdkSpan 1 True)
         [KeyValue ''http.method'' (StringValue ''GET''),
          KeyValue ''http.url'' (StringValue ''/x''),
          KeyValue ''http.status_code'' (Int64Value 404)],
       Span_SetStatus (SdkSpan 1 True) codes_Error ''HTTP 404'',
       Span_SetAttributes (SdkSpan 1 True) [KeyValue ''http.duration_ms'' (Int64Value 150)],
       Span_End (SdkSpan 1 True)], None)"
    using a on by (simp add: sp ms)
  have t2: "TrackRequest (example_otel None None False False) [] ''GET'' ''/x'' 150000000 404 = ([], None)"
    using b off by simp
  have t3: "TrackRequest_legacy \<lparr>var_traceEnabled = False, var_metricsEnabled = True\<rparr>
       (example_otel None None True False) [] ''GET'' ''/x'' 150000000 ''404'' =
     [Meter_Float64Counter ''http.requests'',
      Instrument_Add (Instrument ''http.requests'') [] float64_one
        [KeyValue ''http.method'' (StringValue ''GET''),
         KeyValue ''http.url'' (StringValue ''/x''),
         KeyValue ''http.duration_ms'' (Int64Value 150),
         KeyValue ''http.status_code'' (StringValue ''404'')]]"
    using a by (simp add: mt ms)
  have t4: "submissions
     (TrackRequest_legacy \<lparr>var_traceEnabled = True, var_metricsEnabled = False\<rparr>
        (example_otel None None False False) [] ''GET'' ''/x'' 150000000 ''404'') = []"
    using b by (simp add: submissions_def)
  show ?thesis using on off t1 t2 t3 t4 by simp
qed

text \<open>
  C4 as stated fails where the gate is closed: with tracing disabled a \<^verbatim>\<open>TrackRequest\<close> of
  \<^verbatim>\<open>open_telemetry.go\<close> produces no telemetry item at all, and so does one on the flat
  backend with telemetry disabled.
\<close>

theorem C4_zero_items_counterexample:
  "TrackRequest (example_otel None None False True) [] ''GET'' ''/x'' 150000000 200 = ([], None) \<and>
   submissions (fst (TrackRequest (example_otel None None False True) [] ''GET'' ''/x'' 150000000 200)) = [] \<and>
   AppInsights_TrackRequest (example_appinsights True False) [] ''GET'' ''/x'' 150000000 ''200'' = []"
  by (simp add: TrackRequest_def example_otel_def submissions_def AppInsights_TrackRequest_def
      example_appinsights_def)

section \<open>Backend selection\<close>

lemma getTelemetryType_cases:
  "getTelemetryType rt = TelemetryTypeOpenTelemetry \<or> getTelemetryType rt = TelemetryTypeAppInsights"
  by (simp add: getTelemetryType_def Let_def)

lemma getTelemetryType_default:
  assumes "ToLower rt (Getenv rt ''TELEMETRY_TYPE'') \<noteq> ''appinsights''"
    and "ToLower rt (Getenv rt ''TELEMETRY_TYPE'') \<noteq> ''applicationinsights''"
  shows "getTelemetryType rt = TelemetryTypeOpenTelemetry"
  using assms by (simp add: getTelemetryType_def Let_def)

lemma getTelemetryType_unset:
  "Getenv rt ''TELEMETRY_TYPE'' = [] \<Longrightarrow> getTelemetryType rt = TelemetryTypeOpenTelemetry"
  by (simp add: getTelemetryType_def)

lemma TelemetryType_distinct: "TelemetryTypeOpenTelemetry \<noteq> TelemetryTypeAppInsights"
  by (simp add: TelemetryTypeOpenTelemetry_def TelemetryTypeAppInsights_def)

lemma NewTelemetry_legacy_streaming:
  assumes "getTelemetryType rt = TelemetryTypeOpenTelemetry"
  shows "NewTelemetry_legacy sdk rt =
     as_Telemetry Streaming
       (newOpenTelemetry sdk
          (if Getenv rt ''SERVICE_NAME'' = [] then ''unknown-service'' else Getenv rt ''SERVICE_NAME'')
          (Getenv rt ''OTEL_EXPORTER_OTLP_TRACES_ENDPOINT'')
          (Getenv rt ''OTEL_EXPORTER_OTLP_METRICS_ENDPOINT'')
          (Getenv rt ''OTEL_TRACE_ENABLED'' = ''true'')
          (Getenv rt ''OTEL_METRICS_ENABLED'' = ''true''))"
  using assms by (simp add: NewTelemetry_legacy_def Let_def)

lemma NewTelemetry_legacy_flat:
  assumes "getTelemetryType rt = TelemetryTypeAppInsights"
  shows "NewTelemetry_legacy sdk rt = as_Telemetry FlatEvent (newAppInsightsTelemetry rt)"
  using assms TelemetryType_distinct by (simp add: NewTelemetry_legacy_def Let_def)

lemma NewTelemetry_recognised:
  assumes "Getenv rt ''TELEMETRY_TYPE'' = ''opentelemetry'' \<or> Getenv rt ''TELEMETRY_TYPE'' = ''otel''
           \<or> Getenv rt ''TELEMETRY_TYPE'' = []"
  shows "NewTelemetry sdk rt =
     as_Telemetry Streaming
       (NewOpenTelemetry sdk
          (if Getenv rt ''SERVICE_NAME'' = [] then ''unknown-service'' else Getenv rt ''SERVICE_NAME'')
          (Getenv rt ''OTEL_EXPORTER_OTLP_TRACES_ENDPOINT'')
          (Getenv rt ''OTEL_EXPORTER_OTLP_METRICS_ENDPOINT'')
          (Getenv rt ''OTEL_TRACE_ENABLED'' = ''true'')
          (Getenv rt ''OTEL_METRICS_ENABLED'' = ''true''))"
  using assms by (auto simp add: NewTelemetry_def Let_def)

lemma NewTelemetry_unrecognised:
  assumes "Getenv rt ''TELEMETRY_TYPE'' \<noteq> ''opentelemetry''"
    and "Getenv rt ''TELEMETRY_TYPE'' \<noteq> ''otel''"
    and "Getenv rt ''TELEMETRY_TYPE'' \<noteq> []"
  shows "NewTelemetry sdk rt = (Inl (unknown_telemetry_type (Getenv rt ''TELEMETRY_TYPE'')), [])"
  using assms by (simp add: NewTelemetry_def Let_def)

text \<open>
  C5, as the code has it. \<^verbatim>\<open>getTelemetryType\<close> resolves every value of \<^verbatim>\<open>TELEMETRY_TYPE\<close> to
  one of the two backends, and to the streaming backend when the variable is empty or its
  lower-case form is not one of the two names of the flat backend. The \<^verbatim>\<open>NewTelemetry\<close>
  that goes through \<^verbatim>\<open>getTelemetryType\<close> therefore always reaches a backend constructor and
  never returns the error \<^verbatim>\<open>unknown telemetry type\<close>. The \<^verbatim>\<open>NewTelemetry\<close> of
  \<^verbatim>\<open>Interface.go\<close> compares the selector as read, case-sensitively: for \<^verbatim>\<open>opentelemetry\<close>,
  \<^verbatim>\<open>otel\<close> and the empty string it constructs the streaming backend, and for every other
  value it returns the error \<^verbatim>\<open>unknown telemetry type: <value>\<close> with no backend built.
\<close>

theorem C5_backend_selection:
  "(getTelemetryType rt = TelemetryTypeOpenTelemetry \<or>
    getTelemetryType rt = TelemetryTypeAppInsights) \<and>
   (Getenv rt ''TELEMETRY_TYPE'' = [] \<longrightarrow> getTelemetryType rt = TelemetryTypeOpenTelemetry) \<and>
   (ToLower rt (Getenv rt ''TELEMETRY_TYPE'') \<noteq> ''appinsights'' \<and>
    ToLower rt (Getenv rt ''TELEMETRY_TYPE'') \<noteq> ''applicationinsights''
      \<longrightarrow> getTelemetryType rt = TelemetryTypeOpenTelemetry) \<and>
   (NewTelemetry_legacy sdk rt =
      as_Telemetry Streaming
        (newOpenTelemetry sdk
           (if Getenv rt ''SERVICE_NAME'' = [] then ''unknown-service'' else Getenv rt ''SERVICE_NAME'')
           (Getenv rt ''OTEL_EXPORTER_OTLP_TRACES_ENDPOINT'')
           (Getenv rt ''OTEL_EXPORTER_OTLP_METRICS_ENDPOINT'')
           (Getenv rt ''OTEL_TRACE_ENABLED'' = ''true'')
           (Getenv rt ''OTEL_METRICS_ENABLED'' = ''true'')) \<or>
    NewTelemetry_legacy sdk rt = as_Telemetry FlatEvent (newAppInsightsTelemetry rt)) \<and>
   (Getenv rt ''TELEMETRY_TYPE'' \<noteq> ''opentelemetry'' \<and> Getenv rt ''TELEMETRY_TYPE'' \<noteq> ''otel'' \<and>
    Getenv rt ''TELEMETRY_TYPE'' \<noteq> []
      \<longrightarrow> NewTelemetry sdk rt = (Inl (unknown_telemetry_type (Getenv rt ''TELEMETRY_TYPE'')), [])) \<and>
   (Getenv rt ''TELEMETRY_TYPE'' = ''opentelemetry'' \<or> Getenv rt ''TELEMETRY_TYPE'' = ''otel'' \<or>
    Getenv rt ''TELEMETRY_TYPE'' = []
      \<longrightarrow> NewTelemetry sdk rt =
            as_Telemetry Streaming
              (NewOpenTelemetry sdk
                 (if Getenv rt ''SERVICE_NAME'' = [] then ''unknown-service''
                  else Getenv rt ''SERVICE_NAME'')
                 (Getenv rt ''OTEL_EXPORTER_OTLP_TRACES_ENDPOINT'')
                 (Getenv rt ''OTEL_EXPORTER_OTLP_METRICS_ENDPOINT'')
                 (Getenv rt ''OTEL_TRACE_ENABLED'' = ''true'')
                 (Getenv rt ''OTEL_METRICS_ENABLED'' = ''true'')))"
proof -
  have reach: "NewTelemetry_legacy sdk rt =
      as_Telemetry Streaming
        (newOpenTelemetry sdk
           (if Getenv rt ''SERVICE_NAME'' = [] then ''unknown-service'' else Getenv rt ''SERVICE_NAME'')
           (Getenv rt ''OTEL_EXPORTER_OTLP_TRACES_ENDPOINT'')
           (Getenv rt ''OTEL_EXPORTER_OTLP_METRICS_ENDPOINT'')
           (Getenv rt ''OTEL_TRACE_ENABLED'' = ''true'')
           (Getenv rt ''OTEL_METRICS_ENABLED'' = ''true'')) \<or>
    NewTelemetry_legacy sdk rt = as_Telemetry FlatEvent (newAppInsightsTelemetry rt)"
    using getTelemetryType_cases [of rt] NewTelemetry_legacy_streaming [of rt sdk]
      NewTelemetry_legacy_flat [of rt sdk]
    by blast
  show ?thesis
    using getTelemetryType_cases [of rt] getTelemetryType_unset [of rt]
      getTelemetryType_default [of rt] reach NewTelemetry_unrecognised [of rt sdk]
      NewTelemetry_recognised [of rt sdk]
    by blast
qed

theorem C5_backend_selection_witness:
  "getTelemetryType (example_runtime [''TELEMETRY_TYPE'' \<mapsto> ''Foo'']) = TelemetryTypeOpenTelemetry \<and>
   NewTelemetry example_sdk (example_runtime [''TELEMETRY_TYPE'' \<mapsto> ''Foo'']) =
     (Inl (unknown_telemetry_type ''Foo''), []) \<and>
   getTelemetryType (example_runtime Map.empty) = TelemetryTypeOpenTelemetry \<and>
   NewTelemetry example_sdk (example_runtime Map.empty) =
     as_Telemetry Streaming (NewOpenTelemetry example_sdk ''unknown-service'' [] [] False False)"
  using C5_backend_selection [of "example_runtime [''TELEMETRY_TYPE'' \<mapsto> ''Foo'']" example_sdk]
    C5_backend_selection [of "example_runtime Map.empty" example_sdk]
  by (simp add: example_runtime_def Getenv_def ascii_lower_def)

text \<open>
  C5 as stated fails on \<^verbatim>\<open>NewTelemetry\<close> of \<^verbatim>\<open>Interface.go\<close>: an unrecognized selector makes
  it return the error \<^verbatim>\<open>unknown telemetry type\<close>; so does \<^verbatim>\<open>OTEL\<close> in upper case.
\<close>

theorem C5_unknown_type_counterexample:
  "NewTelemetry example_sdk (example_runtime [''TELEMETRY_TYPE'' \<mapsto> ''foo'']) =
     (Inl (errorString ''unknown telemetry type: foo''), []) \<and>
   NewTelemetry example_sdk (example_runtime [''TELEMETRY_TYPE'' \<mapsto> ''OTEL'']) =
     (Inl (errorString ''unknown telemetry type: OTEL''), [])"
  by (simp add: NewTelemetry_def example_runtime_def Getenv_def unknown_telemetry_type_def)

section \<open>The default service name\<close>

lemma newAppInsightsTelemetry_default_name:
  assumes "Getenv rt ''SERVICE_NAME'' = []"
  shows "\<exists>ai cs. newAppInsightsTelemetry rt = (Inr ai, cs) \<and> ai_serviceName ai = ''Melina''"
  using assms by (simp add: newAppInsightsTelemetry_def Let_def split: prod.splits sum.splits)

text \<open>
  C9, as the code has it. When \<^verbatim>\<open>SERVICE_NAME\<close> is unset, both versions of \<^verbatim>\<open>NewTelemetry\<close>
  construct the streaming backend with the service name \<^verbatim>\<open>unknown-service\<close>; the flat
  backend is constructed with the service name \<^verbatim>\<open>Melina\<close>.
\<close>

theorem C9_default_service_name:
  assumes "Getenv rt ''SERVICE_NAME'' = []"
  shows "(Getenv rt ''TELEMETRY_TYPE'' = ''opentelemetry'' \<or> Getenv rt ''TELEMETRY_TYPE'' = ''otel'' \<or>
          Getenv rt ''TELEMETRY_TYPE'' = []
            \<longrightarrow> NewTelemetry sdk rt =
                  as_Telemetry Streaming
                    (NewOpenTelemetry sdk ''unknown-service''
                       (Getenv rt ''OTEL_EXPORTER_OTLP_TRACES_ENDPOINT'')
                       (Getenv rt ''OTEL_EXPORTER_OTLP_METRICS_ENDPOINT'')
                       (Getenv rt ''OTEL_TRACE_ENABLED'' = ''true'')
                       (Getenv rt ''OTEL_METRICS_ENABLED'' = ''true''))) \<and>
         (getTelemetryType rt = TelemetryTypeOpenTelemetry
            \<longrightarrow> NewTelemetry_legacy sdk rt =
                  as_Telemetry Streaming
                    (newOpenTelemetry sdk ''unknown-service''
                       (Getenv rt ''OTEL_EXPORTER_OTLP_TRACES_ENDPOINT'')
                       (Getenv rt ''OTEL_EXPORTER_OTLP_METRICS_ENDPOINT'')
                       (Getenv rt ''OTEL_TRACE_ENABLED'' = ''true'')
                       (Getenv rt ''OTEL_METRICS_ENABLED'' = ''true''))) \<and>
         (getTelemetryType rt = TelemetryTypeAppInsights
            \<longrightarrow> (\<exists>ai cs. NewTelemetry_legacy sdk rt = (Inr (FlatEvent ai), cs) \<and>
                         ai_serviceName ai = ''Melina''))"
proof -
  have flat: "getTelemetryType rt = TelemetryTypeAppInsights \<Longrightarrow>
      \<exists>ai cs. NewTelemetry_legacy sdk rt = (Inr (FlatEvent ai), cs) \<and> ai_serviceName ai = ''Melina''"
  proof -
    assume sel: "getTelemetryType rt = TelemetryTypeAppInsights"
    obtain ai cs where built: "newAppInsightsTelemetry rt = (Inr ai, cs)"
      and name: "ai_serviceName ai = ''Melina''"
      using newAppInsightsTelemetry_default_name [OF assms] by blast
    have "NewTelemetry_legacy sdk rt = (Inr (FlatEvent ai), cs)"
      using NewTelemetry_legacy_flat [OF sel, of sdk] built by (simp add: as_Telemetry_def)
    with name show ?thesis by blast
  qed
  show ?thesis
    using NewTelemetry_recognised [of rt sdk] NewTelemetry_legacy_streaming [of rt sdk] flat assms
    by simp
qed

theorem C9_default_service_name_witness:
  "Getenv (example_runtime Map.empty) ''SERVICE_NAME'' = [] \<and>
   NewTelemetry example_sdk (example_runtime Map.empty) =
     as_Telemetry Streaming (NewOpenTelemetry example_sdk ''unknown-service'' [] [] False False) \<and>
   NewTelemetry_legacy example_sdk (example_runtime Map.empty) =
     as_Telemetry Streaming (newOpenTelemetry example_sdk ''unknown-service'' [] [] False False)"
  using C9_default_service_name [of "example_runtime Map.empty" example_sdk]
    getTelemetryType_unset [of "example_runtime Map.empty"]
  by (simp add: example_runtime_def Getenv_def)

text \<open>
  C9 as stated fails on the flat backend: with \<^verbatim>\<open>SERVICE_NAME\<close> unset and the selector
  \<^verbatim>\<open>appinsights\<close>, the facade is built with the service name \<^verbatim>\<open>Melina\<close>.
\<close>

theorem C9_flat_backend_counterexample:
  "NewTelemetry_legacy example_sdk (example_runtime [''TELEMETRY_TYPE'' \<mapsto> ''appinsights'']) =
     (Inr (FlatEvent
        \<lparr>ai_client = TelemetryClient ''6b57af63-7a39-4834-9d3d-405ddb07a51a'',
         ai_hostname = ''host'',
         ai_serviceName = ''Melina'',
         ai_traceEnabled = False,
         ai_telemetryEnabled = False\<rparr>),
      [Log InfoLevel
         ''APPINSIGHTS_INSTRUMENTATIONKEY is not set, using default instrumentation key'' [],
       Log InfoLevel ''SERVICE_NAME is not set, using Melina as default'' []])"
  by (simp add: NewTelemetry_legacy_def getTelemetryType_def example_runtime_def Getenv_def
      ascii_lower_def TelemetryTypeOpenTelemetry_def TelemetryTypeAppInsights_def
      newAppInsightsTelemetry_def as_Telemetry_def ParseBool_def
      APPINSIGHTS_INSTRUMENTATIONKEY_DEFAULT_def Let_def)
section \<open>Shutdown\<close>

text \<open>
  \<^verbatim>\<open>Shutdown\<close> of \<^verbatim>\<open>open_telemetry.go\<close>: every provider the facade owns gets its shutdown
  call, whatever an earlier one answered; the error returned is \<^verbatim>\<open>nil\<close> exactly when no
  provider failed, and carries both messages when both failed; with no provider there is
  no call and no error.
\<close>

lemma Shutdown_calls:
  "snd (Shutdown ot ctx) =
     (case traceProvider ot of None \<Rightarrow> [] | Some tp \<Rightarrow> [TracerProvider_Shutdown ctx]) @
     (case meterProvider ot of None \<Rightarrow> [] | Some mp \<Rightarrow> [MeterProvider_Shutdown ctx])"
  by (simp add: Shutdown_def split: option.splits)

lemma Shutdown_result:
  "fst (Shutdown ot ctx) =
     (case failure (meterProvider ot) of
        None \<Rightarrow> failure (traceProvider ot)
      | Some mErr \<Rightarrow>
          Some (errorString (''trace: '' @ fmt_v (failure (traceProvider ot)) @
                             '', metric: '' @ Error_msg mErr)))"
  by (simp add: Shutdown_def failure_def Errorf_trace_metric_def split: option.splits)

lemma Shutdown_no_error_iff:
  "fst (Shutdown ot ctx) = None \<longleftrightarrow>
     failure (traceProvider ot) = None \<and> failure (meterProvider ot) = None"
  by (simp add: Shutdown_result split: option.splits)

lemma Shutdown_no_provider:
  "traceProvider ot = None \<Longrightarrow> meterProvider ot = None \<Longrightarrow> Shutdown ot ctx = (None, [])"
  by (simp add: Shutdown_def)

lemma newOpenTelemetry_no_provider:
  assumes "newOpenTelemetry sdk serviceName traceEndpoint metricEndpoint te me = (Inr ot, cs)"
  shows "traceProvider ot = None \<and> meterProvider ot = None"
  using assms
  by (auto simp add: newOpenTelemetry_def split: sum.splits if_splits)

lemma Shutdown_legacy_nil:
  "traceProvider ot = None \<Longrightarrow> Shutdown_legacy ot ctx = ([], Some nil_pointer_dereference)"
  by (simp add: Shutdown_legacy_def)

text \<open>
  C6 holds for \<^verbatim>\<open>Shutdown\<close> of \<^verbatim>\<open>open_telemetry.go\<close> (the four lemmas above) and fails for
  \<^verbatim>\<open>Shutdown\<close> of \<^verbatim>\<open>opentelemetry.go\<close>, which calls both providers without the \<^verbatim>\<open>nil\<close> test the
  other has: on the facade its own constructor builds with tracing and metrics disabled,
  no provider was created and the shutdown dereferences \<^verbatim>\<open>nil\<close>. The same happens with both
  flags on, since that constructor never stores the providers it creates. On the same
  state \<^verbatim>\<open>Shutdown\<close> of \<^verbatim>\<open>open_telemetry.go\<close> returns \<^verbatim>\<open>nil\<close> without a call.
\<close>

theorem C6_legacy_shutdown_nil_provider:
  "(case fst (newOpenTelemetry example_sdk ''svc'' [] [] False False) of
      Inl err \<Rightarrow> None
    | Inr ot \<Rightarrow> Some (traceProvider ot, meterProvider ot, Shutdown_legacy ot [])) =
   Some (None, None, [], Some nil_pointer_dereference) \<and>
   (case fst (newOpenTelemetry example_sdk ''svc'' ''collector:4317'' ''collector:4317'' True True) of
      Inl err \<Rightarrow> None
    | Inr ot \<Rightarrow> Some (traceProvider ot, meterProvider ot, Shutdown_legacy ot [])) =
   Some (None, None, [], Some nil_pointer_dereference) \<and>
   Shutdown (example_otel None None False False) [] = (None, [])"
  by (simp add: newOpenTelemetry_def example_sdk_def Shutdown_legacy_def Shutdown_def
      example_otel_def)

section \<open>Disabled metrics\<close>

lemma PostMetrics_disabled:
  "\<not> ai_telemetryEnabled ai \<Longrightarrow> PostMetrics ai name v = []"
  by (simp add: PostMetrics_def)

lemma AppInsights_RecordMetric_disabled:
  assumes "\<not> ai_telemetryEnabled ai"
  shows "AppInsights_RecordMetric rt ai ctx name v attributes = []"
proof -
  have "concat (map (\<lambda>attr. PostMetrics ai (name @ ''.'' @ Key attr) (AsFloat64 rt (Val attr)))
          attributes) = []"
    by (induction attributes) (simp_all add: PostMetrics_disabled [OF assms])
  then show ?thesis
    by (simp add: AppInsights_RecordMetric_def PostMetrics_disabled [OF assms])
qed

text \<open>
  With metrics disabled the methods of \<^verbatim>\<open>open_telemetry.go\<close> and of the flat backend make no
  call; \<^verbatim>\<open>RecordMetric\<close> and \<^verbatim>\<open>IncrementCounter\<close> of \<^verbatim>\<open>opentelemetry.go\<close> only write a log line.
\<close>

lemma metrics_disabled_no_submission:
  assumes "\<not> metricsEnabled ot" and "\<not> ai_telemetryEnabled ai" and "\<not> var_metricsEnabled pv"
  shows "RecordMetric ot ctx name v attributes = [] \<and>
         IncrementCounter ot ctx name v attributes = [] \<and>
         RecordGauge ot ctx name v attributes = [] \<and>
         AppInsights_RecordMetric rt ai ctx name v attributes = [] \<and>
         AppInsights_IncrementCounter rt ai ctx name v attributes = [] \<and>
         AppInsights_RecordGauge rt ai ctx name v attributes = [] \<and>
         submissions (RecordMetric_legacy pv ot ctx name v attributes) = [] \<and>
         filter is_instrument_creation (RecordMetric_legacy pv ot ctx name v attributes) = [] \<and>
         submissions (IncrementCounter_legacy pv ot ctx name v attributes) = [] \<and>
         filter is_instrument_creation (IncrementCounter_legacy pv ot ctx name v attributes) = []"
  using assms AppInsights_RecordMetric_disabled [OF assms(2)]
  by (simp add: RecordMetric_def IncrementCounter_def RecordGauge_def
      AppInsights_IncrementCounter_def AppInsights_RecordGauge_def
      RecordMetric_legacy_def IncrementCounter_legacy_def submissions_def)

text \<open>
  C7 fails for \<^verbatim>\<open>RecordGauge\<close> of \<^verbatim>\<open>opentelemetry.go\<close>, which lacks the gate its own
  \<^verbatim>\<open>RecordMetric\<close> has: with the metrics flag off (package variable and field alike) it
  creates the gauge and records the value.
\<close>

theorem C7_legacy_record_gauge_ungated:
  "RecordGauge_legacy \<lparr>var_traceEnabled = False, var_metricsEnabled = False\<rparr>
     (example_otel None None False False) [] ''queue.size'' float64_one [] =
     [Meter_Float64ObservableGauge ''queue.size'',
      Instrument_Observe (Instrument ''queue.size'') [] float64_one []]"
  by (simp add: RecordGauge_legacy_def example_otel_def example_meter_def)

section \<open>Errors and the current span\<close>

text \<open>
  C8. With tracing enabled, a context whose current span is recording and an error that is
  not \<^verbatim>\<open>nil\<close>, \<^verbatim>\<open>LogError\<close> logs the message, records the error on that span and sets the
  span's status to the error status with the error's message. With tracing disabled, or a
  context whose current span is not recording (none is open), \<^verbatim>\<open>LogError\<close> makes no call on
  any span or tracer, whatever the error is.
\<close>

theorem C8_log_error_marks_span:
  "(traceEnabled ot \<and> IsRecording (SpanFromContext ctx) \<longrightarrow>
      LogError ot ctx message (Some e) attributes =
        [Log ErrorLevel message [zap_Error (Some e), zap_Any ''attributes'' attributes],
         Span_RecordError (SpanFromContext ctx) e attributes,
         Span_SetStatus (SpanFromContext ctx) codes_Error (Error_msg e)]) \<and>
   (\<not> traceEnabled ot \<or> \<not> IsRecording (SpanFromContext ctx) \<longrightarrow>
      filter is_trace_call (LogError ot ctx message err attributes) = [])"
proof (intro conjI impI)
  assume "traceEnabled ot \<and> IsRecording (SpanFromContext ctx)"
  then show "LogError ot ctx message (Some e) attributes =
        [Log ErrorLevel message [zap_Error (Some e), zap_Any ''attributes'' attributes],
         Span_RecordError (SpanFromContext ctx) e attributes,
         Span_SetStatus (SpanFromContext ctx) codes_Error (Error_msg e)]"
    by (simp add: LogError_def RecordError_def Let_def)
next
  assume "\<not> traceEnabled ot \<or> \<not> IsRecording (SpanFromContext ctx)"
  then have "RecordError ot ctx err attributes = []"
    by (cases err) (auto simp add: RecordError_def Let_def)
  then show "filter is_trace_call (LogError ot ctx message err attributes) = []"
    by (simp add: LogError_def)
qed

theorem C8_log_error_marks_span_witness:
  "traceEnabled (example_otel None None True False) \<and>
   IsRecording (SpanFromContext [(currentSpanKey, SdkSpan 7 True)]) \<and>
   LogError (example_otel None None True False) [(currentSpanKey, SdkSpan 7 True)] ''failed''
       (Some (errorString ''boom'')) [] =
     [Log ErrorLevel ''failed'' [zap_Error (Some (errorString ''boom'')), zap_Any ''attributes'' []],
      Span_RecordError (SdkSpan 7 True) (errorString ''boom'') [],
      Span_SetStatus (SdkSpan 7 True) codes_Error ''boom''] \<and>
   \<not> IsRecording (SpanFromContext []) \<and>
   filter is_trace_call
     (LogError (example_otel None None True False) [] ''failed'' (Some (errorString ''boom'')) []) = [] \<and>
   \<not> traceEnabled (example_otel None None False False) \<and>
   filter is_trace_call
     (LogError (example_otel None None False False) [(currentSpanKey, SdkSpan 7 True)] ''failed''
        (Some (errorString ''boom'')) []) = []"
  using C8_log_error_marks_span [of "example_otel None None True False"
      "[(currentSpanKey, SdkSpan 7 True)]" "''failed''" "errorString ''boom''" "[]"
      "Some (errorString ''boom'')"]
    C8_log_error_marks_span [of "example_otel None None True False" "[]" "''failed''"
      "errorString ''boom''" "[]" "Some (errorString ''boom'')"]
    C8_log_error_marks_span [of "example_otel None None False False"
      "[(currentSpanKey, SdkSpan 7 True)]" "''failed''" "errorString ''boom''" "[]"
      "Some (errorString ''boom'')"]
  by (simp add: example_otel_def SpanFromContext_def)

section \<open>Counters\<close>

text \<open>
  C10. On every backend \<^verbatim>\<open>IncrementCounter\<close> makes exactly the calls \<^verbatim>\<open>RecordMetric\<close> makes
  for the same context, name, value and attributes.
\<close>

theorem C10_increment_counter_is_record_metric:
  "IncrementCounter ot ctx name v attributes = RecordMetric ot ctx name v attributes \<and>
   AppInsights_IncrementCounter rt ai ctx name v attributes =
     AppInsights_RecordMetric rt ai ctx name v attributes \<and>
   IncrementCounter_legacy pv ot ctx name v attributes =
     RecordMetric_legacy pv ot ctx name v attributes"
  by (simp add: IncrementCounter_def AppInsights_IncrementCounter_def IncrementCounter_legacy_def)

theorem C10_increment_counter_is_record_metric_witness:
  "IncrementCounter (example_otel None None False True) [] ''requests.total'' float64_one [] =
     [Meter_Float64Counter ''requests.total'',
      Instrument_Add (Instrument ''requests.total'') [] float64_one []] \<and>
   AppInsights_IncrementCounter (example_runtime Map.empty) (example_appinsights False True) []
       ''requests.total'' float64_one [KeyValue ''k'' (Float64Value float64_one)] =
     [Go_Track (MetricTelemetry ''requests.total'' float64_one),
      Go_Track (MetricTelemetry ''requests.total.k'' float64_one)]"
  using C10_increment_counter_is_record_metric [of "example_otel None None False True" "[]"
      "''requests.total''" float64_one "[]" "example_runtime Map.empty"
      "example_appinsights False True"]
    C10_increment_counter_is_record_metric [of "example_otel None None False True" "[]"
      "''requests.total''" float64_one "[KeyValue ''k'' (Float64Value float64_one)]"
      "example_runtime Map.empty" "example_appinsights False True"]
  by (simp add: RecordMetric_def example_otel_def example_meter_def AppInsights_RecordMetric_def
      PostMetrics_def example_appinsights_def example_runtime_def)

end
